theory Spec2Isabelle
  imports Complex_Main "HOL-Library.Word" "HOL-Library.List_Lexorder" "HOL-Library.Product_Lexorder"
begin

unbundle bit_operations_syntax

section \<open>JavaScript values\<close>

text \<open>
  A JavaScript string is a sequence of UTF-16 code units. Literals of the source are
  written \<open>str ''...''\<close>. Comparison of two strings (\<open><\<close>, and the default
  \<open>Array.prototype.sort\<close>) is lexicographic on code units, which is the order
  that \<open>HOL-Library.List_Lexorder\<close> puts on lists of words.
\<close>

type_synonym code_unit = "16 word"
type_synonym jsstring = "code_unit list"
type_synonym byte = "8 word"

definition str :: "string \<Rightarrow> jsstring" where
  "str s = map of_char s"

text \<open>The single quote, which a string literal of this theory cannot hold.\<close>

definition sq :: jsstring where
  "sq = [0x27]"

text \<open>
  Truthiness of a value of type \<open>string | undefined\<close>: \<open>undefined\<close> and the empty
  string are falsy, every other string is truthy.
\<close>

fun truthy :: "jsstring option \<Rightarrow> bool" where
  "truthy None = False"
| "truthy (Some s) = (s \<noteq> [])"

text \<open>\<open>a || b\<close> on a \<open>string | undefined\<close> and a string.\<close>

definition or_else :: "jsstring option \<Rightarrow> jsstring \<Rightarrow> jsstring" where
  "or_else a b = (case a of None \<Rightarrow> b | Some s \<Rightarrow> if s = [] then b else s)"

text \<open>
  \<open>String.prototype.toLowerCase\<close> on the code units \<open>A\<close> to \<open>Z\<close>; every other
  code unit is returned as it is. The source only compares the result with the literal
  \<open>'sco'\<close>, and no code point outside \<open>A\<close> to \<open>Z\<close> has a lower-case mapping
  that yields \<open>s\<close>, \<open>c\<close> or \<open>o\<close>, so that comparison is exact.
\<close>

definition lower_unit :: "code_unit \<Rightarrow> code_unit" where
  "lower_unit c = (if 0x41 \<le> c \<and> c \<le> 0x5A then c + 0x20 else c)"

definition toLowerCase :: "jsstring \<Rightarrow> jsstring" where
  "toLowerCase s = map lower_unit s"


text \<open>
  \<open>String.prototype.toUpperCase\<close> on the code units \<open>a\<close> to \<open>z\<close>; every other
  code unit is returned as it is, which is exact on strings of ASCII code units. The
  source applies it to the request method, the literal \<open>'POST'\<close> at both call
  sites.
\<close>

definition upper_unit :: "code_unit \<Rightarrow> code_unit" where
  "upper_unit c = (if 0x61 \<le> c \<and> c \<le> 0x7A then c - 0x20 else c)"

definition toUpperCase :: "jsstring \<Rightarrow> jsstring" where
  "toUpperCase s = map upper_unit s"

text \<open>\<open>Array.prototype.join\<close> on an array of strings.\<close>

fun join :: "jsstring \<Rightarrow> jsstring list \<Rightarrow> jsstring" where
  "join sep [] = []"
| "join sep [x] = x"
| "join sep (x # y # rest) = x @ sep @ join sep (y # rest)"

text \<open>
  Exceptions are values: a computation that may throw returns \<open>Inl\<close> of the
  exception or \<open>Inr\<close> of its result.
\<close>

datatype js_error = URIError | TypeError_Invalid_URL | RangeError

definition bind_err :: "'e + 'a \<Rightarrow> ('a \<Rightarrow> 'e + 'b) \<Rightarrow> 'e + 'b" where
  "bind_err m f = (case m of Inl e \<Rightarrow> Inl e | Inr x \<Rightarrow> f x)"

text \<open>\<open>Array.prototype.map\<close> with a callback that may throw: the first exception ends it.\<close>

fun map_err :: "('a \<Rightarrow> 'e + 'b) \<Rightarrow> 'a list \<Rightarrow> 'e + 'b list" where
  "map_err f [] = Inr []"
| "map_err f (x # xs) =
     bind_err (f x) (\<lambda>y. bind_err (map_err f xs) (\<lambda>ys. Inr (y # ys)))"

subsection \<open>UTF-16 and UTF-8\<close>

definition is_high_surrogate :: "code_unit \<Rightarrow> bool" where
  "is_high_surrogate c = (0xD800 \<le> c \<and> c \<le> 0xDBFF)"

definition is_low_surrogate :: "code_unit \<Rightarrow> bool" where
  "is_low_surrogate c = (0xDC00 \<le> c \<and> c \<le> 0xDFFF)"

definition pair_code_point :: "code_unit \<Rightarrow> code_unit \<Rightarrow> nat" where
  "pair_code_point hi lo = 0x10000 + (unat hi - 0xD800) * 0x400 + (unat lo - 0xDC00)"

definition byte_of :: "nat \<Rightarrow> byte" where
  "byte_of n = of_nat n"

definition utf8_octets :: "nat \<Rightarrow> byte list" where
  "utf8_octets cp =
     (if cp < 0x80 then [byte_of cp]
      else if cp < 0x800 then [byte_of (0xC0 + cp div 64), byte_of (0x80 + cp mod 64)]
      else if cp < 0x10000 then
        [byte_of (0xE0 + cp div 4096), byte_of (0x80 + cp div 64 mod 64),
         byte_of (0x80 + cp mod 64)]
      else
        [byte_of (0xF0 + cp div 262144), byte_of (0x80 + cp div 4096 mod 64),
         byte_of (0x80 + cp div 64 mod 64), byte_of (0x80 + cp mod 64)])"

text \<open>
  \<open>Buffer.from(string)\<close>: the UTF-8 encoding of the string, in which a surrogate
  that is not part of a pair is replaced by U+FFFD.
\<close>

fun Buffer_from :: "jsstring \<Rightarrow> byte list" where
  "Buffer_from [] = []"
| "Buffer_from [c] =
     (if is_high_surrogate c \<or> is_low_surrogate c then [0xEF, 0xBF, 0xBD]
      else utf8_octets (unat c))"
| "Buffer_from (c # d # rest) =
     (if is_high_surrogate c \<and> is_low_surrogate d
      then utf8_octets (pair_code_point c d) @ Buffer_from rest
      else if is_high_surrogate c \<or> is_low_surrogate c
      then [0xEF, 0xBF, 0xBD] @ Buffer_from (d # rest)
      else utf8_octets (unat c) @ Buffer_from (d # rest))"

text \<open>A string of ASCII code units.\<close>

definition ascii :: "jsstring \<Rightarrow> bool" where
  "ascii s = list_all (\<lambda>c. c < 0x80) s"

text \<open>A string is well formed when every surrogate in it is part of a pair.\<close>

fun isWellFormed :: "jsstring \<Rightarrow> bool" where
  "isWellFormed [] = True"
| "isWellFormed [c] = (\<not> is_high_surrogate c \<and> \<not> is_low_surrogate c)"
| "isWellFormed (c # d # rest) =
     (if is_high_surrogate c then is_low_surrogate d \<and> isWellFormed rest
      else \<not> is_low_surrogate c \<and> isWellFormed (d # rest))"

subsection \<open>Objects with string values\<close>

text \<open>
  A \<open>Record<string, string>\<close> is the list of its own properties in enumeration
  order, each key at most once.
\<close>

type_synonym jsobject = "(jsstring \<times> jsstring) list"

definition obj_get :: "jsobject \<Rightarrow> jsstring \<Rightarrow> jsstring option" where
  "obj_get obj k = map_of obj k"

text \<open>\<open>obj[k] = v\<close>: an existing property keeps its place, a new one comes last.\<close>

fun obj_set :: "jsobject \<Rightarrow> jsstring \<Rightarrow> jsstring \<Rightarrow> jsobject" where
  "obj_set [] k v = [(k, v)]"
| "obj_set ((k', v') # rest) k v =
     (if k' = k then (k, v) # rest else (k', v') # obj_set rest k v)"

definition obj_delete :: "jsobject \<Rightarrow> jsstring \<Rightarrow> jsobject" where
  "obj_delete obj k = filter (\<lambda>p. fst p \<noteq> k) obj"

definition Object_keys :: "jsobject \<Rightarrow> jsstring list" where
  "Object_keys obj = map fst obj"

text \<open>A property read that is passed on as a string: \<open>undefined\<close> prints as such.\<close>

definition obj_get_string :: "jsobject \<Rightarrow> jsstring \<Rightarrow> jsstring" where
  "obj_get_string obj k = (case obj_get obj k of None \<Rightarrow> str ''undefined'' | Some v \<Rightarrow> v)"

text \<open>An object whose keys and values are all well-formed strings.\<close>

definition wellFormed_params :: "jsobject \<Rightarrow> bool" where
  "wellFormed_params params =
     list_all (\<lambda>p. isWellFormed (fst p) \<and> isWellFormed (snd p)) params"

subsection \<open>Numbers as strings\<close>

text \<open>
  The string of an integer number, as a template literal prints it (plain decimal;
  \<open>Date.now()\<close> is an integer far below the magnitude where the exponent form
  starts).
\<close>

fun digits :: "nat \<Rightarrow> jsstring" where
  "digits n =
     (if n < 10 then [0x30 + of_nat n] else digits (n div 10) @ [0x30 + of_nat (n mod 10)])"

declare digits.simps [simp del]

definition int_toString :: "int \<Rightarrow> jsstring" where
  "int_toString i = (if i < 0 then 0x2D # digits (nat (- i)) else digits (nat i))"

section \<open>SHA-1, HMAC and Base64\<close>

text \<open>
  The functions of Node's \<open>crypto\<close> module that the source calls, after FIPS 180-4
  (SHA-1), RFC 2104 (HMAC) and RFC 4648 (Base64 with padding). A message is a list of
  bytes; a digest is 20 bytes.
\<close>

definition rotl32 :: "nat \<Rightarrow> 32 word \<Rightarrow> 32 word" where
  "rotl32 n x = push_bit n x OR drop_bit (32 - n) x"

definition be32 :: "byte list \<Rightarrow> 32 word" where
  "be32 bs = foldl (\<lambda>acc b. push_bit 8 acc OR ucast b) 0 bs"

definition bytes_of32 :: "32 word \<Rightarrow> byte list" where
  "bytes_of32 w = [ucast (drop_bit 24 w), ucast (drop_bit 16 w), ucast (drop_bit 8 w), ucast w]"

definition bytes_of64 :: "64 word \<Rightarrow> byte list" where
  "bytes_of64 w = map (\<lambda>i. ucast (drop_bit (8 * (7 - i)) w)) [0..<8]"

definition sha1_pad :: "byte list \<Rightarrow> byte list" where
  "sha1_pad m =
     m @ [0x80] @ replicate ((64 - (length m + 9) mod 64) mod 64) 0
       @ bytes_of64 (of_nat (8 * length m))"

fun chunks :: "nat \<Rightarrow> 'a list \<Rightarrow> 'a list list" where
  "chunks n [] = []"
| "chunks n (x # xs) =
     (if n = 0 then [] else take n (x # xs) # chunks n (drop n (x # xs)))"

fun sha1_schedule :: "nat \<Rightarrow> 32 word list \<Rightarrow> 32 word list" where
  "sha1_schedule 0 ws = ws"
| "sha1_schedule (Suc k) ws =
     (let t = length ws in
      sha1_schedule k
        (ws @ [rotl32 1 (ws ! (t - 3) XOR ws ! (t - 8) XOR ws ! (t - 14) XOR ws ! (t - 16))]))"

type_synonym sha1_state = "32 word \<times> 32 word \<times> 32 word \<times> 32 word \<times> 32 word"

definition sha1_f :: "nat \<Rightarrow> 32 word \<Rightarrow> 32 word \<Rightarrow> 32 word \<Rightarrow> 32 word" where
  "sha1_f t b c d =
     (if t < 20 then (b AND c) OR (NOT b AND d)
      else if t < 40 then b XOR c XOR d
      else if t < 60 then (b AND c) OR (b AND d) OR (c AND d)
      else b XOR c XOR d)"

definition sha1_k :: "nat \<Rightarrow> 32 word" where
  "sha1_k t =
     (if t < 20 then 0x5A827999
      else if t < 40 then 0x6ED9EBA1
      else if t < 60 then 0x8F1BBCDC
      else 0xCA62C1D6)"

fun sha1_rounds :: "nat \<Rightarrow> 32 word list \<Rightarrow> sha1_state \<Rightarrow> sha1_state" where
  "sha1_rounds t [] s = s"
| "sha1_rounds t (w # ws) (a, b, c, d, e) =
     sha1_rounds (Suc t) ws
       (rotl32 5 a + sha1_f t b c d + e + sha1_k t + w, a, rotl32 30 b, c, d)"

definition sha1_block :: "sha1_state \<Rightarrow> byte list \<Rightarrow> sha1_state" where
  "sha1_block s block =
     (case s of (h0, h1, h2, h3, h4) \<Rightarrow>
        (case sha1_rounds 0 (sha1_schedule 64 (map be32 (chunks 4 block))) s of
           (a, b, c, d, e) \<Rightarrow> (h0 + a, h1 + b, h2 + c, h3 + d, h4 + e)))"

definition sha1 :: "byte list \<Rightarrow> byte list" where
  "sha1 m =
     (case foldl sha1_block (0x67452301, 0xEFCDAB89, 0x98BADCFE, 0x10325476, 0xC3D2E1F0)
             (chunks 64 (sha1_pad m)) of
        (h0, h1, h2, h3, h4) \<Rightarrow>
          bytes_of32 h0 @ bytes_of32 h1 @ bytes_of32 h2 @ bytes_of32 h3 @ bytes_of32 h4)"

definition hmac_sha1 :: "byte list \<Rightarrow> byte list \<Rightarrow> byte list" where
  "hmac_sha1 key msg =
     (let k0 = (if length key > 64 then sha1 key else key);
          k = k0 @ replicate (64 - length k0) 0
      in sha1 (map (\<lambda>b. b XOR 0x5C) k @ sha1 (map (\<lambda>b. b XOR 0x36) k @ msg)))"

definition base64_alphabet :: jsstring where
  "base64_alphabet = str ''ABCDEFGHIJKLMNOPQRSTUVWXYZabcdefghijklmnopqrstuvwxyz0123456789+/''"

definition b64 :: "nat \<Rightarrow> code_unit" where
  "b64 n = base64_alphabet ! (n mod 64)"

fun base64 :: "byte list \<Rightarrow> jsstring" where
  "base64 [] = []"
| "base64 [a] =
     [b64 (unat a div 4), b64 (unat a mod 4 * 16), 0x3D, 0x3D]"
| "base64 [a, b] =
     [b64 (unat a div 4), b64 (unat a mod 4 * 16 + unat b div 16),
      b64 (unat b mod 16 * 4), 0x3D]"
| "base64 (a # b # c # rest) =
     [b64 (unat a div 4), b64 (unat a mod 4 * 16 + unat b div 16),
      b64 (unat b mod 16 * 4 + unat c div 64), b64 (unat c mod 64)] @ base64 rest"

section \<open>OAuth 1.0a signatures (lti-provider)\<close>

subsection \<open>Percent-encoding\<close>

definition is_alnum :: "code_unit \<Rightarrow> bool" where
  "is_alnum c =
     ((0x30 \<le> c \<and> c \<le> 0x39) \<or> (0x41 \<le> c \<and> c \<le> 0x5A) \<or> (0x61 \<le> c \<and> c \<le> 0x7A))"

text \<open>The characters \<open>encodeURIComponent\<close> leaves alone: letters, digits and \<open>-_.!~*'()\<close>.\<close>

definition uriUnescaped :: "code_unit \<Rightarrow> bool" where
  "uriUnescaped c =
     (is_alnum c \<or> c \<in> set [0x2D, 0x5F, 0x2E, 0x21, 0x7E, 0x2A, 0x27, 0x28, 0x29])"

definition hex_digit :: "nat \<Rightarrow> code_unit" where
  "hex_digit n = (if n < 10 then 0x30 + of_nat n else 0x41 + of_nat (n - 10))"

definition percent_octet :: "byte \<Rightarrow> jsstring" where
  "percent_octet b = [0x25, hex_digit (unat b div 16), hex_digit (unat b mod 16)]"

definition percent_encode :: "nat \<Rightarrow> jsstring" where
  "percent_encode cp = concat (map percent_octet (utf8_octets cp))"

text \<open>
  \<open>encodeURIComponent\<close>: an unescaped character is copied; any other code point is
  written as the percent-encoded octets of its UTF-8 form; a surrogate that is not part
  of a pair throws \<open>URIError\<close>.
\<close>

fun encodeURIComponent :: "jsstring \<Rightarrow> js_error + jsstring" where
  "encodeURIComponent [] = Inr []"
| "encodeURIComponent [c] =
     (if uriUnescaped c then Inr [c]
      else if is_high_surrogate c \<or> is_low_surrogate c then Inl URIError
      else Inr (percent_encode (unat c)))"
| "encodeURIComponent (c # d # rest) =
     (if uriUnescaped c then
        bind_err (encodeURIComponent (d # rest)) (\<lambda>s. Inr (c # s))
      else if is_low_surrogate c then Inl URIError
      else if is_high_surrogate c then
        (if is_low_surrogate d then
           bind_err (encodeURIComponent rest)
             (\<lambda>s. Inr (percent_encode (pair_code_point c d) @ s))
         else Inl URIError)
      else bind_err (encodeURIComponent (d # rest)) (\<lambda>s. Inr (percent_encode (unat c) @ s)))"

text \<open>
  The replacement callback of \<open>encodeRfc3986\<close>: \<open>'%' + c.charCodeAt(0).toString(16).toUpperCase()\<close>
  for the five characters \<open>!'()*\<close>, whose codes have two hexadecimal digits.
\<close>

definition rfc3986_unit :: "code_unit \<Rightarrow> jsstring" where
  "rfc3986_unit c =
     (if c \<in> set [0x21, 0x27, 0x28, 0x29, 0x2A]
      then [0x25, hex_digit (unat c div 16), hex_digit (unat c mod 16)]
      else [c])"

definition encodeRfc3986 :: "jsstring \<Rightarrow> js_error + jsstring" where
  "encodeRfc3986 s =
     bind_err (encodeURIComponent s) (\<lambda>e. Inr (concat (map rfc3986_unit e)))"

subsection \<open>The request URL\<close>

text \<open>
  The fields of a parsed \<open>URL\<close> object that \<open>normalizeUrl\<close> reads. The parser
  itself (\<open>new URL(url)\<close>, which throws a \<open>TypeError\<close> on a string that is not a
  URL) belongs to the platform and is a parameter \<open>parse\<close> of the functions below:
  \<open>None\<close> when the constructor throws.
\<close>

record URL =
  protocol :: jsstring
  hostname :: jsstring
  port :: jsstring
  pathname :: jsstring

text \<open>The \<open>host\<close> getter: the host name, and the port after a colon when there is one.\<close>

definition host :: "URL \<Rightarrow> jsstring" where
  "host u = (if port u = [] then hostname u else hostname u @ str '':'' @ port u)"

definition normalizeUrl :: "(jsstring \<Rightarrow> URL option) \<Rightarrow> jsstring \<Rightarrow> js_error + jsstring" where
  "normalizeUrl parse url =
     (case parse url of
        None \<Rightarrow> Inl TypeError_Invalid_URL
      | Some parsed \<Rightarrow>
          (let parsed' =
             (if (protocol parsed = str ''http:'' \<and> port parsed = str ''80'') \<or>
                 (protocol parsed = str ''https:'' \<and> port parsed = str ''443'')
              then parsed\<lparr>port := []\<rparr> else parsed)
           in Inr (protocol parsed' @ str ''//'' @ host parsed' @ pathname parsed')))"

subsection \<open>Base string and signature\<close>

text \<open>
  The parameter string of \<open>buildBaseString\<close>: the keys of the copy without
  \<open>oauth_signature\<close>, sorted by \<open>Array.prototype.sort\<close> (code-unit order of the
  keys as they are), each mapped to \<open>encoded key = encoded value\<close>, joined with \<open>&\<close>.
\<close>

definition paramString :: "jsobject \<Rightarrow> js_error + jsstring" where
  "paramString params =
     (let filteredParams = obj_delete params (str ''oauth_signature'');
          sortedKeys = sort (Object_keys filteredParams)
      in bind_err
           (map_err
              (\<lambda>key. bind_err (encodeRfc3986 key) (\<lambda>k.
                 bind_err (encodeRfc3986 (obj_get_string filteredParams key)) (\<lambda>v.
                   Inr (k @ str ''='' @ v))))
              sortedKeys)
           (\<lambda>pairs. Inr (join (str ''&'') pairs)))"

definition buildBaseString ::
  "(jsstring \<Rightarrow> URL option) \<Rightarrow> jsstring \<Rightarrow> jsstring \<Rightarrow> jsobject \<Rightarrow> js_error + jsstring" where
  "buildBaseString parse method url params =
     bind_err (paramString params) (\<lambda>ps.
       bind_err (normalizeUrl parse url) (\<lambda>nu.
         bind_err (encodeRfc3986 nu) (\<lambda>eu.
           bind_err (encodeRfc3986 ps) (\<lambda>ep.
             Inr (join (str ''&'') [toUpperCase method, eu, ep])))))"

text \<open>\<open>crypto.createHmac('sha1', key).update(data).digest('base64')\<close> on two strings.\<close>

definition hmac_sha1_base64 :: "jsstring \<Rightarrow> jsstring \<Rightarrow> jsstring" where
  "hmac_sha1_base64 key data = base64 (hmac_sha1 (Buffer_from key) (Buffer_from data))"

text \<open>\<open>crypto.timingSafeEqual\<close> throws when the two buffers differ in length.\<close>

definition timingSafeEqual :: "byte list \<Rightarrow> byte list \<Rightarrow> js_error + bool" where
  "timingSafeEqual a b = (if length a \<noteq> length b then Inl RangeError else Inr (a = b))"

definition signRequest ::
  "(jsstring \<Rightarrow> URL option) \<Rightarrow> jsstring \<Rightarrow> jsstring \<Rightarrow> jsobject \<Rightarrow> jsstring
     \<Rightarrow> js_error + jsstring" where
  "signRequest parse method url params consumerSecret =
     bind_err (buildBaseString parse method url params) (\<lambda>baseString.
       bind_err (encodeURIComponent consumerSecret) (\<lambda>es.
         Inr (hmac_sha1_base64 (es @ str ''&'') baseString)))"

text \<open>
  \<open>validateLtiLaunch\<close>: only the comparison stands inside \<open>try\<close>; an exception of
  \<open>buildBaseString\<close> or of \<open>encodeURIComponent\<close> leaves the function.
\<close>

definition validateLtiLaunch ::
  "(jsstring \<Rightarrow> URL option) \<Rightarrow> jsobject \<Rightarrow> jsstring \<Rightarrow> jsstring \<Rightarrow> js_error + bool" where
  "validateLtiLaunch parse params consumerSecret url =
     (case obj_get params (str ''oauth_signature'') of
        None \<Rightarrow> Inr False
      | Some signature \<Rightarrow>
          if signature = [] then Inr False
          else
            bind_err (buildBaseString parse (str ''POST'') url params) (\<lambda>baseString.
              bind_err (encodeURIComponent consumerSecret) (\<lambda>es.
                (let expectedSignature = hmac_sha1_base64 (es @ str ''&'') baseString
                 in case timingSafeEqual (Buffer_from signature) (Buffer_from expectedSignature) of
                      Inl e \<Rightarrow> Inr False
                    | Inr b \<Rightarrow> Inr b))))"

subsection \<open>The parameter string as the specification words it\<close>

text \<open>
  The remaining parameters as encoded pairs, sorted by encoded key and then encoded
  value, joined as \<open>key=value\<close> with \<open>&\<close>.
\<close>

definition encoded_pairs :: "jsobject \<Rightarrow> js_error + (jsstring \<times> jsstring) list" where
  "encoded_pairs params =
     map_err
       (\<lambda>p. bind_err (encodeRfc3986 (fst p)) (\<lambda>k.
          bind_err (encodeRfc3986 (snd p)) (\<lambda>v. Inr (k, v))))
       (obj_delete params (str ''oauth_signature''))"

definition spec_paramString :: "jsobject \<Rightarrow> js_error + jsstring" where
  "spec_paramString params =
     bind_err (encoded_pairs params) (\<lambda>ps.
       Inr (join (str ''&'') (map (\<lambda>p. fst p @ str ''='' @ snd p) (sort ps))))"

text \<open>The same with the pairs sorted by the key as it is, before encoding.\<close>

definition raw_sorted_paramString :: "jsobject \<Rightarrow> js_error + jsstring" where
  "raw_sorted_paramString params =
     bind_err
       (map_err
          (\<lambda>p. bind_err (encodeRfc3986 (fst p)) (\<lambda>k.
             bind_err (encodeRfc3986 (snd p)) (\<lambda>v. Inr (k @ str ''='' @ v))))
          (sort_key fst (obj_delete params (str ''oauth_signature''))))
       (\<lambda>pairs. Inr (join (str ''&'') pairs))"

subsection \<open>Example inputs\<close>

text \<open>
  The launch URL of the specification's end-to-end scenario,
  \<open>https://host/lti/launch\<close>, and the URL of an outcome service, as the platform's
  parser reads them. The string \<open>not a url\<close> has no scheme, so the constructor
  throws on it. \<open>example_parse\<close> gives the parser's answers on these three strings;
  it is used on no other.
\<close>

definition example_parse :: "jsstring \<Rightarrow> URL option" where
  "example_parse u =
     (if u = str ''https://host/lti/launch''
      then Some \<lparr>protocol = str ''https:'', hostname = str ''host'', port = [],
                 pathname = str ''/lti/launch''\<rparr>
      else if u = str ''https://lms.example/outcomes''
      then Some \<lparr>protocol = str ''https:'', hostname = str ''lms.example'', port = [],
                 pathname = str ''/outcomes''\<rparr>
      else None)"

section \<open>Manifest parser: launch path\<close>

record ItemData =
  item_identifier :: jsstring
  item_title :: jsstring
  resourceId :: "jsstring option"

record OrganizationData =
  org_identifier :: jsstring
  org_title :: jsstring
  items :: "ItemData list"

record ResourceData =
  res_identifier :: jsstring
  res_type :: jsstring
  href :: "jsstring option"
  scormType :: "jsstring option"

text \<open>
  The inner loop of \<open>findLaunchPath\<close> over the items of one organization:
  \<open>Some h\<close> when the loop executes \<open>return resource.href\<close>, \<open>None\<close> when it
  runs to its end. \<open>resources.find\<close> yields the first resource with the identifier.
\<close>

fun item_loop :: "ResourceData list \<Rightarrow> ItemData list \<Rightarrow> jsstring option" where
  "item_loop resources [] = None"
| "item_loop resources (item # rest) =
     (if truthy (resourceId item) then
        (case find (\<lambda>r. Some (res_identifier r) = resourceId item) resources of
           None \<Rightarrow> item_loop resources rest
         | Some resource \<Rightarrow>
             if truthy (href resource) then href resource
             else item_loop resources rest)
      else item_loop resources rest)"

fun org_loop :: "ResourceData list \<Rightarrow> OrganizationData list \<Rightarrow> jsstring option" where
  "org_loop resources [] = None"
| "org_loop resources (org # rest) =
     (case item_loop resources (items org) of
        Some h \<Rightarrow> Some h
      | None \<Rightarrow> org_loop resources rest)"

text \<open>
  \<open>resource.scormType?.toLowerCase() === 'sco'\<close>: false when \<open>scormType\<close> is
  \<open>undefined\<close>.
\<close>

definition scormType_is_sco :: "ResourceData \<Rightarrow> bool" where
  "scormType_is_sco r =
     (case scormType r of None \<Rightarrow> False | Some t \<Rightarrow> toLowerCase t = str ''sco'')"

fun sco_loop :: "ResourceData list \<Rightarrow> jsstring option" where
  "sco_loop [] = None"
| "sco_loop (resource # rest) =
     (if truthy (href resource) \<and> scormType_is_sco resource then href resource
      else sco_loop rest)"

definition findLaunchPath :: "OrganizationData list \<Rightarrow> ResourceData list \<Rightarrow> jsstring" where
  "findLaunchPath organizations resources =
     (case org_loop resources organizations of
        Some h \<Rightarrow> h
      | None \<Rightarrow>
         (case sco_loop resources of
            Some h \<Rightarrow> h
          | None \<Rightarrow>
             (case find (\<lambda>r. truthy (href r)) resources of
                None \<Rightarrow> str ''index.html''
              | Some firstWithHref \<Rightarrow> or_else (href firstWithHref) (str ''index.html''))))"

subsection \<open>The launch path as the specification words it\<close>

text \<open>
  A resource has an href when the attribute is present and not empty (the source tests
  it for truthiness). The resource an item references is the first one that carries the
  item's \<open>identifierref\<close>; an item with no or an empty \<open>identifierref\<close> references
  none.
\<close>

definition has_href :: "ResourceData \<Rightarrow> bool" where
  "has_href r = truthy (href r)"

definition referenced_resource :: "ResourceData list \<Rightarrow> ItemData \<Rightarrow> ResourceData option" where
  "referenced_resource resources item =
     (case resourceId item of
        None \<Rightarrow> None
      | Some rid \<Rightarrow> if rid = [] then None else find (\<lambda>r. res_identifier r = rid) resources)"

definition references_href :: "ResourceData list \<Rightarrow> ItemData \<Rightarrow> bool" where
  "references_href resources item =
     (case referenced_resource resources item of None \<Rightarrow> False | Some r \<Rightarrow> has_href r)"

definition href_of :: "ResourceData option \<Rightarrow> jsstring" where
  "href_of r = (case r of None \<Rightarrow> [] | Some x \<Rightarrow> (case href x of None \<Rightarrow> [] | Some h \<Rightarrow> h))"

text \<open>Equality with \<open>sco\<close> up to the case of each of the three letters.\<close>

definition equals_sco_ignoring_case :: "jsstring \<Rightarrow> bool" where
  "equals_sco_ignoring_case t =
     (t \<in> set (map str [''sco'', ''scO'', ''sCo'', ''sCO'', ''Sco'', ''ScO'', ''SCo'', ''SCO'']))"

definition is_sco :: "ResourceData \<Rightarrow> bool" where
  "is_sco r = (case scormType r of None \<Rightarrow> False | Some t \<Rightarrow> equals_sco_ignoring_case t)"

definition spec_launchPath :: "OrganizationData list \<Rightarrow> ResourceData list \<Rightarrow> jsstring" where
  "spec_launchPath organizations resources =
     (case find (references_href resources) (concat (map items organizations)) of
        Some item \<Rightarrow> href_of (referenced_resource resources item)
      | None \<Rightarrow>
         (case find (\<lambda>r. is_sco r \<and> has_href r) resources of
            Some r \<Rightarrow> href_of (Some r)
          | None \<Rightarrow>
             (case find has_href resources of
                Some r \<Rightarrow> href_of (Some r)
              | None \<Rightarrow> str ''index.html'')))"

section \<open>Dispatch package generator (dispatch-generator)\<close>

text \<open>
  \<open>String.prototype.replace\<close> with a global pattern that matches one character and
  a replacement string without \<open>$\<close>: every occurrence of the character is replaced.
\<close>

definition replace_all :: "code_unit \<Rightarrow> jsstring \<Rightarrow> jsstring \<Rightarrow> jsstring" where
  "replace_all c r s = concat (map (\<lambda>x. if x = c then r else [x]) s)"

definition escapeXml :: "jsstring \<Rightarrow> jsstring" where
  \<open>escapeXml s =
     (let s1 = replace_all 0x26 (str ''&amp;'') s;
          s2 = replace_all 0x3C (str ''&lt;'') s1;
          s3 = replace_all 0x3E (str ''&gt;'') s2;
          s4 = replace_all 0x22 (str ''&quot;'') s3
      in replace_all 0x27 (str ''&apos;'') s4)\<close>

text \<open>
  \<open>escapeJs\<close>: the replacements are a backslash followed by a backslash, a single
  quote, a double quote, \<open>n\<close> and \<open>r\<close>.
\<close>

definition escapeJs :: "jsstring \<Rightarrow> jsstring" where
  "escapeJs s =
     (let s1 = replace_all 0x5C [0x5C, 0x5C] s;
          s2 = replace_all 0x27 [0x5C, 0x27] s1;
          s3 = replace_all 0x22 [0x5C, 0x22] s2;
          s4 = replace_all 0x0A [0x5C, 0x6E] s3
      in replace_all 0x0D [0x5C, 0x72] s4)"

text \<open>The template literal of \<open>generateManifest\<close>, cut at its three substitutions.\<close>

definition manifest_1 :: jsstring where
  \<open>manifest_1 = str ''<?xml version="1.0" encoding="UTF-8"?>
<manifest identifier="''\<close>

definition manifest_2 :: jsstring where
  \<open>manifest_2 = str ''"
          xmlns="http://www.imsproject.org/xsd/imscp_rootv1p1p2"
          xmlns:adlcp="http://www.adlnet.org/xsd/adlcp_rootv1p2"
          xmlns:xsi="http://www.w3.org/2001/XMLSchema-instance"
          xsi:schemaLocation="http://www.imsproject.org/xsd/imscp_rootv1p1p2 imscp_rootv1p1p2.xsd
                              http://www.adlnet.org/xsd/adlcp_rootv1p2 adlcp_rootv1p2.xsd">

  <metadata>
    <schema>ADL SCORM</schema>
    <schemaversion>1.2</schemaversion>
  </metadata>

  <organizations default="org_1">
    <organization identifier="org_1">
      <title>''\<close>

definition manifest_3 :: jsstring where
  \<open>manifest_3 = str ''</title>
      <item identifier="item_1" identifierref="res_1">
        <title>''\<close>

definition manifest_4 :: jsstring where
  \<open>manifest_4 = str ''</title>
      </item>
    </organization>
  </organizations>

  <resources>
    <resource identifier="res_1" type="webcontent" adlcp:scormtype="sco" href="launcher.html">
      <file href="launcher.html"/>
    </resource>
  </resources>

</manifest>''\<close>

text \<open>\<open>now\<close> is the value of \<open>Date.now()\<close> at the call.\<close>

definition generateManifest :: "int \<Rightarrow> jsstring \<Rightarrow> jsstring" where
  "generateManifest now courseTitle =
     (let safeTitle = escapeXml courseTitle;
          identifier = str ''dispatch_'' @ int_toString now
      in manifest_1 @ identifier @ manifest_2 @ safeTitle @ manifest_3 @ safeTitle @ manifest_4)"

text \<open>
  The template literal of \<open>generateLauncher\<close>, cut at its substitution: the page up
  to the statement that holds it, the text \<open>var launchUrl = \<close> with the opening
  quote, and, after the substitution, the closing quote and the rest of the page.
\<close>

definition launcher_head :: jsstring where
  \<open>launcher_head = str ''<!DOCTYPE html>
<html>
<head>
  <meta charset="UTF-8">
  <title>Loading Course...</title>
  <style>
    body {
      font-family: -apple-system, BlinkMacSystemFont, '' @ sq @ str ''Segoe UI'' @ sq @ str '', Roboto, sans-serif;
      display: flex;
      justify-content: center;
      align-items: center;
      height: 100vh;
      margin: 0;
      background: #f5f5f5;
    }
    .loading {
      text-align: center;
    }
    .spinner {
      width: 40px;
      height: 40px;
      border: 4px solid #e0e0e0;
      border-top-color: #3498db;
      border-radius: 50%;
      animation: spin 1s linear infinite;
      margin: 0 auto 16px;
    }
    @keyframes spin {
      to { transform: rotate(360deg); }
    }
  </style>
</head>
<body>
  <div class="loading">
    <div class="spinner"></div>
    <p>Loading course content...</p>
  </div>

  <script>
    // Find the LMS API
    function findAPI(win) {
      var attempts = 0;
      while ((!win.API) && (win.parent) && (win.parent !== win) && (attempts < 10)) {
        attempts++;
        win = win.parent;
      }
      return win.API || null;
    }

    function findAPI_1484_11(win) {
      var attempts = 0;
      while ((!win.API_1484_11) && (win.parent) && (win.parent !== win) && (attempts < 10)) {
        attempts++;
        win = win.parent;
      }
      return win.API_1484_11 || null;
    }

    // Store reference to LMS API
    var lmsAPI = findAPI(window) || findAPI_1484_11(window);

    // Initialize with LMS
    if (lmsAPI) {
      if (lmsAPI.LMSInitialize) {
        lmsAPI.LMSInitialize('' @ sq @ sq @ str '');
      } else if (lmsAPI.Initialize) {
        lmsAPI.Initialize('' @ sq @ sq @ str '');
      }
    }

    // Build launch URL with learner info
    ''\<close>

definition launcher_1 :: jsstring where
  "launcher_1 = launcher_head @ str ''var launchUrl = '' @ sq"

definition launcher_tail :: jsstring where
  \<open>launcher_tail = str '';

    // Add user identifier if available from LMS
    if (lmsAPI) {
      try {
        var studentId = lmsAPI.LMSGetValue ? lmsAPI.LMSGetValue('' @ sq @ str ''cmi.core.student_id'' @ sq @ str '') : null;
        if (!studentId && lmsAPI.GetValue) {
          studentId = lmsAPI.GetValue('' @ sq @ str ''cmi.learner_id'' @ sq @ str '');
        }
        if (studentId) {
          launchUrl += (launchUrl.indexOf('' @ sq @ str ''?'' @ sq @ str '') > -1 ? '' @ sq @ str ''&'' @ sq @ str '' : '' @ sq @ str ''?'' @ sq @ str '') + '' @ sq @ str ''user_id='' @ sq @ str '' + encodeURIComponent(studentId);
        }
      } catch (e) {
        console.log('' @ sq @ str ''Could not get student ID:'' @ sq @ str '', e);
      }
    }

    // Add session identifier
    launchUrl += (launchUrl.indexOf('' @ sq @ str ''?'' @ sq @ str '') > -1 ? '' @ sq @ str ''&'' @ sq @ str '' : '' @ sq @ str ''?'' @ sq @ str '') + '' @ sq @ str ''session_id='' @ sq @ str '' + Date.now();

    // Redirect to hosted content
    window.location.href = launchUrl;

    // Cleanup on unload
    window.onunload = function() {
      if (lmsAPI) {
        if (lmsAPI.LMSFinish) {
          lmsAPI.LMSFinish('' @ sq @ sq @ str '');
        } else if (lmsAPI.Terminate) {
          lmsAPI.Terminate('' @ sq @ sq @ str '');
        }
      }
    };
  </script>
</body>
</html>''\<close>

definition launcher_2 :: jsstring where
  "launcher_2 = sq @ launcher_tail"

definition generateLauncher :: "jsstring \<Rightarrow> jsstring" where
  "generateLauncher launchUrl = launcher_1 @ escapeJs launchUrl @ launcher_2"

text \<open>
  The archive is the list of its entries, name and content, in the order they were
  added; \<open>addFile\<close> replaces the content of an entry that exists already. The zip
  encoding of \<open>toBuffer\<close> is the library's and is not modelled.
\<close>

type_synonym archive = "(jsstring \<times> byte list) list"

fun addFile :: "archive \<Rightarrow> jsstring \<Rightarrow> byte list \<Rightarrow> archive" where
  "addFile [] name content = [(name, content)]"
| "addFile ((n, c) # rest) name content =
     (if n = name then (n, content) # rest else (n, c) # addFile rest name content)"

definition generateDispatchPackage :: "int \<Rightarrow> jsstring \<Rightarrow> jsstring \<Rightarrow> archive" where
  "generateDispatchPackage now courseTitle launchUrl =
     (let zip0 = [];
          manifest = generateManifest now courseTitle;
          zip1 = addFile zip0 (str ''imsmanifest.xml'') (Buffer_from manifest);
          launcher = generateLauncher launchUrl;
          zip2 = addFile zip1 (str ''launcher.html'') (Buffer_from launcher)
      in zip2)"

subsection \<open>Reading the generated texts\<close>

text \<open>
  The elements of a markup text, by its delimiters alone: for every \<open><\<close>, the tag up
  to the next \<open>>\<close> and the character data from there to the next \<open><\<close>.
\<close>

datatype scan_state = Prolog | InTag jsstring | InText jsstring jsstring

fun scan :: "scan_state \<Rightarrow> jsstring \<Rightarrow> (jsstring \<times> jsstring) list \<times> scan_state" where
  "scan st [] = ([], st)"
| "scan Prolog (c # cs) = (if c = 0x3C then scan (InTag []) cs else scan Prolog cs)"
| "scan (InTag t) (c # cs) =
     (if c = 0x3E then scan (InText t []) cs else scan (InTag (t @ [c])) cs)"
| "scan (InText t x) (c # cs) =
     (if c = 0x3C then (case scan (InTag []) cs of (es, st) \<Rightarrow> ((t, x) # es, st))
      else scan (InText t (x @ [c])) cs)"

definition elements :: "jsstring \<Rightarrow> (jsstring \<times> jsstring) list" where
  "elements s =
     (case scan Prolog s of
        (es, InText t x) \<Rightarrow> es @ [(t, x)]
      | (es, _) \<Rightarrow> es)"

text \<open>The start tags of the elements with a given name, and the texts of these elements.\<close>

definition named :: "jsstring \<Rightarrow> jsstring \<times> jsstring \<Rightarrow> bool" where
  "named name e = (fst e = name \<or> take (length name + 1) (fst e) = name @ str '' '')"

definition start_tags :: "jsstring \<Rightarrow> jsstring \<Rightarrow> jsstring list" where
  "start_tags name s = map fst (filter (named name) (elements s))"

definition element_texts :: "jsstring \<Rightarrow> jsstring \<Rightarrow> jsstring list" where
  "element_texts name s = map snd (filter (named name) (elements s))"

text \<open>
  The value of a single-quoted JavaScript string literal, read from the character after
  the opening quote: the characters up to the closing quote, where a backslash followed
  by a backslash or a quote stands for that character, and followed by \<open>n\<close> or
  \<open>r\<close> for a line feed or a carriage return; a line break inside ends no literal.
  The result is the value and the text after the closing quote.
\<close>

fun read_literal :: "jsstring \<Rightarrow> (jsstring \<times> jsstring) option" where
  "read_literal [] = None"
| "read_literal (c # cs) =
     (if c = 0x27 then Some ([], cs)
      else if c = 0x0A \<or> c = 0x0D then None
      else if c = 0x5C then
        (case cs of
           [] \<Rightarrow> None
         | d # rest \<Rightarrow>
             if d = 0x5C \<or> d = 0x27 \<or> d = 0x22 then
               map_option (\<lambda>p. (d # fst p, snd p)) (read_literal rest)
             else if d = 0x6E then map_option (\<lambda>p. (0x0A # fst p, snd p)) (read_literal rest)
             else if d = 0x72 then map_option (\<lambda>p. (0x0D # fst p, snd p)) (read_literal rest)
             else None)
      else map_option (\<lambda>p. (c # fst p, snd p)) (read_literal cs))"

text \<open>What the five replacements of \<open>escapeXml\<close> and of \<open>escapeJs\<close> make of one character.\<close>

definition xml_unit :: "code_unit \<Rightarrow> jsstring" where
  \<open>xml_unit c =
     (if c = 0x26 then str ''&amp;''
      else if c = 0x3C then str ''&lt;''
      else if c = 0x3E then str ''&gt;''
      else if c = 0x22 then str ''&quot;''
      else if c = 0x27 then str ''&apos;''
      else [c])\<close>

definition js_unit :: "code_unit \<Rightarrow> jsstring" where
  "js_unit c =
     (if c = 0x5C \<or> c = 0x27 \<or> c = 0x22 then [0x5C, c]
      else if c = 0x0A then [0x5C, 0x6E]
      else if c = 0x0D then [0x5C, 0x72]
      else [c])"

text \<open>
  How a tag that was begun before a piece of text shows in the scan of that piece: in
  its first element, or in the state when no element was completed.
\<close>

fun shift :: "jsstring \<Rightarrow> (jsstring \<times> jsstring) list \<times> scan_state
    \<Rightarrow> (jsstring \<times> jsstring) list \<times> scan_state" where
  "shift p ([], Prolog) = ([], Prolog)"
| "shift p ([], InTag t) = ([], InTag (p @ t))"
| "shift p ([], InText t x) = ([], InText (p @ t) x)"
| "shift p ((t, x) # es, st) = ((p @ t, x) # es, st)"

section \<open>Numbers\<close>

text \<open>
  A JavaScript number is \<open>NaN\<close>, an infinity, or a finite double, which is
  represented by its exact value, a rational. \<open>Math.min\<close>, \<open>Math.max\<close> and
  \<open>toFixed\<close> are exact functions of that value. The arithmetic of doubles (division,
  multiplication, \<open>Math.round\<close>) and \<open>parseFloat\<close> round, and are parameters
  of the functions that use them.
\<close>

datatype jsnum = NaN | NegInf | PosInf | Fin rat

fun Math_min :: "jsnum \<Rightarrow> jsnum \<Rightarrow> jsnum" where
  "Math_min NaN b = NaN"
| "Math_min a NaN = NaN"
| "Math_min NegInf b = NegInf"
| "Math_min a NegInf = NegInf"
| "Math_min PosInf b = b"
| "Math_min a PosInf = a"
| "Math_min (Fin a) (Fin b) = Fin (min a b)"

fun Math_max :: "jsnum \<Rightarrow> jsnum \<Rightarrow> jsnum" where
  "Math_max NaN b = NaN"
| "Math_max a NaN = NaN"
| "Math_max PosInf b = PosInf"
| "Math_max a PosInf = PosInf"
| "Math_max NegInf b = b"
| "Math_max a NegInf = a"
| "Math_max (Fin a) (Fin b) = Fin (max a b)"

text \<open>
  \<open>Number.prototype.toFixed(2)\<close>: the name of a value that is not finite; otherwise
  the sign, and the digits of the integer \<open>n\<close> for which \<open>n / 100\<close> is nearest to
  the absolute value (the larger one of two), with a point before the last two digits.
  (From \<open>10\<^sup>2\<^sup>1\<close> on the method prints the exponent form instead; the source
  applies it to a clamped value.)
\<close>

definition toFixed_2 :: "jsnum \<Rightarrow> jsstring" where
  "toFixed_2 x =
     (case x of
        NaN \<Rightarrow> str ''NaN''
      | PosInf \<Rightarrow> str ''Infinity''
      | NegInf \<Rightarrow> str ''-Infinity''
      | Fin q \<Rightarrow>
          (let s = (if q < 0 then str ''-'' else []);
               n = nat \<lfloor>\<bar>q\<bar> * 100 + 1 / 2\<rfloor>;
               m = digits n;
               m' = (if length m \<le> 2 then replicate (3 - length m) 0x30 @ m else m)
           in s @ take (length m' - 2) m' @ str ''.'' @ drop (length m' - 2) m'))"

section \<open>The record store\<close>

text \<open>
  The tables of \<open>initDatabase\<close> that the handlers read and write, each a list of rows
  in insertion order, with the columns the handlers use. A column that may be
  \<open>NULL\<close> is an option. The store is the keyed record store of the specification:
  an \<open>INSERT\<close> raises when the primary key exists already or a referenced row is
  missing, and an \<open>UPDATE\<close> changes the rows its \<open>WHERE\<close> clause selects, none
  when there is none. What else makes a statement fail (a lost connection, a value that
  does not fit the type of its column) is not modelled.
\<close>

datatype json = JNull | JBool bool | JNum jsnum | JStr jsstring | JArr "json list"
  | JObj "(jsstring \<times> json) list"

text \<open>\<open>JSON.stringify\<close> of an object with string values, as the store returns it parsed.\<close>

definition json_of_object :: "jsobject \<Rightarrow> json" where
  "json_of_object obj = JObj (map (\<lambda>p. (fst p, JStr (snd p))) obj)"

text \<open>\<open>value?.type\<close>: the property of an object; \<open>undefined\<close> on any other value.\<close>

definition json_field :: "json \<Rightarrow> jsstring \<Rightarrow> json option" where
  "json_field j k = (case j of JObj ps \<Rightarrow> map_of ps k | _ \<Rightarrow> None)"

record Consumer =
  consumer_id :: jsstring
  lti_consumer_key :: jsstring
  lti_consumer_secret :: jsstring
  xapi_lrs_endpoint :: "jsstring option"
  xapi_lrs_key :: "jsstring option"
  xapi_lrs_secret :: "jsstring option"
  consumer_active :: bool

record Course =
  course_id :: jsstring
  course_title :: jsstring
  course_active :: bool

record Launch =
  launch_id :: jsstring
  launch_consumer_id :: jsstring
  launch_course_id :: jsstring
  launch_user_id :: jsstring
  launch_context_id :: "jsstring option"
  launch_resource_link_id :: "jsstring option"
  lis_outcome_service_url :: "jsstring option"
  lis_result_sourcedid :: "jsstring option"
  launch_data :: json

record Attempt =
  attempt_id :: jsstring
  attempt_launch_id :: jsstring
  cmi_data :: json
  attempt_score :: "jsnum option"
  completion_status :: jsstring
  success_status :: "jsstring option"
  total_time :: "jsstring option"
  started_at :: nat
  finished_at :: "nat option"
  updated_at :: nat

record store =
  consumers :: "Consumer list"
  courses :: "Course list"
  launches :: "Launch list"
  attempts :: "Attempt list"

text \<open>
  \<open>INSERT INTO launches\<close>: \<open>None\<close> when the statement raises (the identifier
  exists, or the consumer or the course does not).
\<close>

definition insert_launch :: "store \<Rightarrow> Launch \<Rightarrow> store option" where
  "insert_launch db row =
     (if launch_id row \<in> set (map launch_id (launches db)) \<or>
         launch_consumer_id row \<notin> set (map consumer_id (consumers db)) \<or>
         launch_course_id row \<notin> set (map course_id (courses db))
      then None
      else Some (db\<lparr>launches := launches db @ [row]\<rparr>))"

text \<open>
  \<open>INSERT INTO attempts (id, launch_id)\<close> at time \<open>now\<close>: the other columns take
  their defaults.
\<close>

definition insert_attempt :: "store \<Rightarrow> nat \<Rightarrow> jsstring \<Rightarrow> jsstring \<Rightarrow> store option" where
  "insert_attempt db now attemptId launchId =
     (if attemptId \<in> set (map attempt_id (attempts db)) \<or>
         launchId \<notin> set (map launch_id (launches db))
      then None
      else Some (db\<lparr>attempts := attempts db @
        [\<lparr>attempt_id = attemptId, attempt_launch_id = launchId, cmi_data = JObj [],
          attempt_score = None, completion_status = str ''not attempted'',
          success_status = None, total_time = None, started_at = now,
          finished_at = None, updated_at = now\<rparr>]\<rparr>))"

text \<open>The launch of an attempt: the row the \<open>JOIN\<close> pairs it with.\<close>

definition launch_of :: "store \<Rightarrow> Attempt \<Rightarrow> Launch option" where
  "launch_of db a = find (\<lambda>l. launch_id l = attempt_launch_id a) (launches db)"

text \<open>
  The unfinished attempts of a learner on a course: the rows of
  \<open>attempts a JOIN launches l ON a.launch_id = l.id\<close> with
  \<open>l.user_id = $1 AND l.course_id = $2 AND a.finished_at IS NULL\<close>.
\<close>

definition open_attempts :: "store \<Rightarrow> jsstring \<Rightarrow> jsstring \<Rightarrow> Attempt list" where
  "open_attempts db userId courseId =
     filter
       (\<lambda>a. finished_at a = None \<and>
          (case launch_of db a of
             None \<Rightarrow> False
           | Some l \<Rightarrow> launch_user_id l = userId \<and> launch_course_id l = courseId))
       (attempts db)"

text \<open>
  \<open>ORDER BY a.started_at DESC LIMIT 1\<close>: a row with the latest start; among several
  with the same start, the store may return any, and the model takes the first.
\<close>

fun latest :: "Attempt list \<Rightarrow> Attempt option" where
  "latest [] = None"
| "latest (a # rest) =
     (case latest rest of
        None \<Rightarrow> Some a
      | Some b \<Rightarrow> if started_at b > started_at a then Some b else Some a)"

section \<open>Grade passback (lti-outcomes)\<close>

text \<open>The template literal of \<open>buildReplaceResultXml\<close>, cut at its three substitutions.\<close>

definition replaceResult_1 :: jsstring where
  \<open>replaceResult_1 = str ''<?xml version="1.0" encoding="UTF-8"?>
<imsx_POXEnvelopeRequest xmlns="http://www.imsglobal.org/services/ltiv1p1/xsd/imsoms_v1p0">
  <imsx_POXHeader>
    <imsx_POXRequestHeaderInfo>
      <imsx_version>V1.0</imsx_version>
      <imsx_messageIdentifier>''\<close>

definition replaceResult_2 :: jsstring where
  \<open>replaceResult_2 = str ''</imsx_messageIdentifier>
    </imsx_POXRequestHeaderInfo>
  </imsx_POXHeader>
  <imsx_POXBody>
    <replaceResultRequest>
      <resultRecord>
        <sourcedGUID>
          <sourcedId>''\<close>

definition replaceResult_3 :: jsstring where
  \<open>replaceResult_3 = str ''</sourcedId>
        </sourcedGUID>
        <result>
          <resultScore>
            <language>en</language>
            <textString>''\<close>

definition replaceResult_4 :: jsstring where
  \<open>replaceResult_4 = str ''</textString>
          </resultScore>
        </result>
      </resultRecord>
    </replaceResultRequest>
  </imsx_POXBody>
</imsx_POXEnvelopeRequest>''\<close>

text \<open>\<open>escapeXml\<close> of this module is the function of the dispatch generator, word for word.\<close>

definition buildReplaceResultXml :: "jsstring \<Rightarrow> jsnum \<Rightarrow> jsstring \<Rightarrow> jsstring" where
  "buildReplaceResultXml sourcedid score messageId =
     (let clampedScore = Math_max (Fin 0) (Math_min (Fin 1) score)
      in replaceResult_1 @ escapeXml messageId @ replaceResult_2 @ escapeXml sourcedid @
         replaceResult_3 @ toFixed_2 clampedScore @ replaceResult_4)"

definition computeBodyHash :: "jsstring \<Rightarrow> jsstring" where
  "computeBodyHash body = base64 (sha1 (Buffer_from body))"

text \<open>
  \<open>generateOAuthParams\<close>: \<open>now\<close> is the value of \<open>Date.now()\<close> and \<open>nonce\<close> the
  hexadecimal string of \<open>crypto.randomBytes(16)\<close> at the call.
\<close>

definition generateOAuthParams :: "int \<Rightarrow> jsstring \<Rightarrow> jsstring \<Rightarrow> jsobject" where
  "generateOAuthParams now nonce consumerKey =
     [(str ''oauth_consumer_key'', consumerKey),
      (str ''oauth_signature_method'', str ''HMAC-SHA1''),
      (str ''oauth_timestamp'', int_toString (now div 1000)),
      (str ''oauth_nonce'', nonce),
      (str ''oauth_version'', str ''1.0'')]"

text \<open>\<open>key.startsWith('oauth_')\<close>.\<close>

definition startsWith :: "jsstring \<Rightarrow> jsstring \<Rightarrow> bool" where
  "startsWith s p = (take (length p) s = p)"

definition buildAuthHeader :: "jsobject \<Rightarrow> js_error + jsstring" where
  \<open>buildAuthHeader params =
     bind_err
       (map_err
          (\<lambda>p. bind_err (encodeRfc3986 (fst p)) (\<lambda>k.
             bind_err (encodeRfc3986 (snd p)) (\<lambda>v.
               Inr (k @ str ''="'' @ v @ str ''"''))))
          (filter (\<lambda>p. startsWith (fst p) (str ''oauth_'')) params))
       (\<lambda>pairs. Inr (str ''OAuth '' @ join (str '', '') pairs))\<close>

text \<open>\<open>String.prototype.includes\<close>.\<close>

fun string_includes :: "jsstring \<Rightarrow> jsstring \<Rightarrow> bool" where
  "string_includes [] p = (p = [])"
| "string_includes (c # cs) p = (startsWith (c # cs) p \<or> string_includes cs p)"

subsection \<open>Outbound HTTP\<close>

text \<open>
  A request as the source hands it to \<open>fetch\<close>, and what \<open>fetch\<close> makes of it: a
  rejection (the request could not be made), or a response with its status and its
  body text. \<open>fetch\<close> is a parameter. The body of a request is the XML text of a grade
  passback, or the statement that \<open>JSON.stringify\<close> is applied to.
\<close>

record XapiScore =
  scaled :: jsnum
  raw :: jsnum
  score_min :: jsnum
  score_max :: jsnum

record XapiResult =
  result_score :: "XapiScore option"
  result_success :: "bool option"
  result_completion :: "bool option"
  result_duration :: "jsstring option"

record XapiStatement =
  actor_homePage :: jsstring
  actor_name :: jsstring
  verb_id :: jsstring
  verb_display :: jsstring
  object_id :: jsstring
  object_definition_type :: jsstring
  object_definition_name :: jsstring
  statement_result :: "XapiResult option"
  statement_timestamp :: jsstring

datatype request_body = Xml_body jsstring | Statement_body XapiStatement

record http_request =
  req_method :: jsstring
  req_url :: jsstring
  req_headers :: "(jsstring \<times> jsstring) list"
  req_body :: request_body

datatype fetch_result = Rejected | Response nat jsstring

text \<open>\<open>response.ok\<close>: the status is in the range 200 to 299.\<close>

definition response_ok :: "nat \<Rightarrow> bool" where
  "response_ok status = (200 \<le> status \<and> status \<le> 299)"

text \<open>
  What the module reads from its surroundings: the URL parser, \<open>fetch\<close>, the clock
  (\<open>Date.now()\<close> for the message identifier and for the OAuth timestamp,
  \<open>new Date().toISOString()\<close> for a statement), the random part of the message
  identifier (\<open>Math.random().toString(36).substr(2, 9)\<close>) and the OAuth nonce, the
  configuration (\<open>config.baseUrl\<close> and the process-wide LRS settings), and the
  arithmetic of doubles (\<open>parseFloat\<close>, \<open>/\<close>, \<open>*\<close> and \<open>Math.round\<close>).
\<close>

record environment =
  env_parse :: "jsstring \<Rightarrow> URL option"
  env_fetch :: "http_request \<Rightarrow> fetch_result"
  env_now_message :: int
  env_random :: jsstring
  env_now_oauth :: int
  env_nonce :: jsstring
  env_iso_time :: jsstring
  env_baseUrl :: jsstring
  env_xapi_endpoint :: jsstring
  env_xapi_key :: jsstring
  env_xapi_secret :: jsstring
  env_parseFloat :: "jsstring \<Rightarrow> jsnum"
  env_divide :: "jsnum \<Rightarrow> jsnum \<Rightarrow> jsnum"
  env_times :: "jsnum \<Rightarrow> jsnum \<Rightarrow> jsnum"
  env_round :: "jsnum \<Rightarrow> jsnum"

text \<open>The errors an outbound call ends with.\<close>

datatype send_error =
    Consumer_not_found
  | Thrown js_error
  | Fetch_rejected
  | Grade_passback_failed nat jsstring
  | Grade_passback_rejected jsstring
  | Xapi_statement_failed nat jsstring

subsection \<open>Sending a grade\<close>

text \<open>
  \<open>sendGradeToLms\<close>: the result of the call, an error when it throws, and the request
  it has handed to \<open>fetch\<close>, if any.
\<close>

definition sendGradeToLms ::
  "environment \<Rightarrow> store \<Rightarrow> jsstring \<Rightarrow> jsstring \<Rightarrow> jsstring \<Rightarrow> jsnum
     \<Rightarrow> (send_error + unit) \<times> http_request list" where
  \<open>sendGradeToLms env db consumerId outcomeServiceUrl sourcedid score =
     (case find (\<lambda>c. consumer_id c = consumerId) (consumers db) of
        None \<Rightarrow> (Inl Consumer_not_found, [])
      | Some consumer \<Rightarrow>
          (let messageId = str ''msg_'' @ int_toString (env_now_message env) @ str ''_'' @
                 env_random env;
               xmlBody = buildReplaceResultXml sourcedid score messageId;
               oauthParams0 = generateOAuthParams (env_now_oauth env) (env_nonce env)
                 (lti_consumer_key consumer);
               oauthParams1 = obj_set oauthParams0 (str ''oauth_body_hash'')
                 (computeBodyHash xmlBody)
           in case signRequest (env_parse env) (str ''POST'') outcomeServiceUrl oauthParams1
                     (lti_consumer_secret consumer) of
                Inl e \<Rightarrow> (Inl (Thrown e), [])
              | Inr signature \<Rightarrow>
                  (case buildAuthHeader (obj_set oauthParams1 (str ''oauth_signature'') signature) of
                     Inl e \<Rightarrow> (Inl (Thrown e), [])
                   | Inr authHeader \<Rightarrow>
                       (let request =
                          \<lparr>req_method = str ''POST'', req_url = outcomeServiceUrl,
                           req_headers = [(str ''Content-Type'', str ''application/xml''),
                                          (str ''Authorization'', authHeader)],
                           req_body = Xml_body xmlBody\<rparr>
                        in case env_fetch env request of
                             Rejected \<Rightarrow> (Inl Fetch_rejected, [request])
                           | Response status text \<Rightarrow>
                               if \<not> response_ok status
                               then (Inl (Grade_passback_failed status text), [request])
                               else if \<not> string_includes text
                                   (str ''<imsx_codeMajor>success</imsx_codeMajor>'')
                               then (Inl (Grade_passback_rejected text), [request])
                               else (Inr (), [request])))))\<close>






section \<open>xAPI statements (xapi-client)\<close>

datatype verb = Launched | Completed | Progressed | Passed | Failed | Scored

record XapiStatementData =
  data_verb :: verb
  data_score :: "jsnum option"
  data_success :: "bool option"
  data_duration :: "jsstring option"

text \<open>The table \<open>VERBS\<close>.\<close>

fun VERBS_id :: "verb \<Rightarrow> jsstring" where
  "VERBS_id Launched = str ''http://adlnet.gov/expapi/verbs/launched''"
| "VERBS_id Completed = str ''http://adlnet.gov/expapi/verbs/completed''"
| "VERBS_id Progressed = str ''http://adlnet.gov/expapi/verbs/progressed''"
| "VERBS_id Passed = str ''http://adlnet.gov/expapi/verbs/passed''"
| "VERBS_id Failed = str ''http://adlnet.gov/expapi/verbs/failed''"
| "VERBS_id Scored = str ''http://adlnet.gov/expapi/verbs/scored''"

fun VERBS_display :: "verb \<Rightarrow> jsstring" where
  "VERBS_display Launched = str ''launched''"
| "VERBS_display Completed = str ''completed''"
| "VERBS_display Progressed = str ''progressed''"
| "VERBS_display Passed = str ''passed''"
| "VERBS_display Failed = str ''failed''"
| "VERBS_display Scored = str ''scored''"

text \<open>\<open>statement.result || {}\<close>.\<close>

definition result_or_empty :: "XapiStatement \<Rightarrow> XapiResult" where
  "result_or_empty statement =
     (case statement_result statement of
        None \<Rightarrow> \<lparr>result_score = None, result_success = None, result_completion = None,
                  result_duration = None\<rparr>
      | Some r \<Rightarrow> r)"

definition buildStatement ::
  "environment \<Rightarrow> jsstring \<Rightarrow> jsstring \<Rightarrow> jsstring \<Rightarrow> XapiStatementData \<Rightarrow> XapiStatement" where
  "buildStatement env userId courseId courseTitle data =
     (let statement0 =
            \<lparr>actor_homePage = env_baseUrl env, actor_name = userId,
             verb_id = VERBS_id (data_verb data), verb_display = VERBS_display (data_verb data),
             object_id = env_baseUrl env @ str ''/course/'' @ courseId,
             object_definition_type = str ''http://adlnet.gov/expapi/activities/course'',
             object_definition_name = courseTitle,
             statement_result = None, statement_timestamp = env_iso_time env\<rparr>;
          statement1 =
            (case data_score data of
               None \<Rightarrow> statement0
             | Some sc \<Rightarrow>
                 statement0\<lparr>statement_result := Some
                   \<lparr>result_score = Some
                      \<lparr>scaled = sc, raw = env_round env (env_times env sc (Fin 100)),
                       score_min = Fin 0, score_max = Fin 100\<rparr>,
                    result_success = None, result_completion = None,
                    result_duration = None\<rparr>\<rparr>);
          statement2 =
            (case data_success data of
               None \<Rightarrow> statement1
             | Some b \<Rightarrow>
                 statement1\<lparr>statement_result :=
                   Some ((result_or_empty statement1)\<lparr>result_success := Some b\<rparr>)\<rparr>);
          statement3 =
            (if data_verb data = Completed
             then statement2\<lparr>statement_result :=
                    Some ((result_or_empty statement2)\<lparr>result_completion := Some True\<rparr>)\<rparr>
             else statement2);
          statement4 =
            (if truthy (data_duration data)
             then statement3\<lparr>statement_result :=
                    Some ((result_or_empty statement3)\<lparr>result_duration := data_duration data\<rparr>)\<rparr>
             else statement3)
      in statement4)"

text \<open>\<open>lrsEndpoint.replace(/\/$/, '')\<close>: without one slash at the end, if there is one.\<close>

definition strip_final_slash :: "jsstring \<Rightarrow> jsstring" where
  "strip_final_slash s = (if s \<noteq> [] \<and> last s = 0x2F then butlast s else s)"

text \<open>The LRS settings of a call: endpoint, key and secret.\<close>

definition lrs_settings :: "environment \<Rightarrow> store \<Rightarrow> jsstring \<Rightarrow> jsstring \<times> jsstring \<times> jsstring" where
  "lrs_settings env db consumerId =
     (case find (\<lambda>c. consumer_id c = consumerId) (consumers db) of
        None \<Rightarrow> (env_xapi_endpoint env, env_xapi_key env, env_xapi_secret env)
      | Some consumer \<Rightarrow>
          if truthy (xapi_lrs_endpoint consumer)
          then (or_else (xapi_lrs_endpoint consumer) [], or_else (xapi_lrs_key consumer) [],
                or_else (xapi_lrs_secret consumer) [])
          else (env_xapi_endpoint env, env_xapi_key env, env_xapi_secret env))"

text \<open>
  \<open>sendXapiStatement\<close>: the result of the call, an error when it throws, and the
  request it has handed to \<open>fetch\<close>, if any.
\<close>

definition sendXapiStatement ::
  "environment \<Rightarrow> store \<Rightarrow> jsstring \<Rightarrow> jsstring \<Rightarrow> jsstring \<Rightarrow> XapiStatementData
     \<Rightarrow> (send_error + unit) \<times> http_request list" where
  "sendXapiStatement env db consumerId userId courseId data =
     (case lrs_settings env db consumerId of
        (lrsEndpoint, lrsKey, lrsSecret) \<Rightarrow>
          if lrsEndpoint = [] then (Inr (), [])
          else
            (let courseTitle =
                   (case find (\<lambda>c. course_id c = courseId) (courses db) of
                      None \<Rightarrow> str ''Unknown Course''
                    | Some c \<Rightarrow> or_else (Some (course_title c)) (str ''Unknown Course''));
                 statement = buildStatement env userId courseId courseTitle data;
                 statementsUrl = strip_final_slash lrsEndpoint @ str ''/statements'';
                 request =
                   \<lparr>req_method = str ''POST'', req_url = statementsUrl,
                    req_headers =
                      [(str ''Content-Type'', str ''application/json''),
                       (str ''Authorization'',
                        str ''Basic '' @ base64 (Buffer_from (lrsKey @ str '':'' @ lrsSecret))),
                       (str ''X-Experience-API-Version'', str ''1.0.3'')],
                    req_body = Statement_body statement\<rparr>
             in case env_fetch env request of
                  Rejected \<Rightarrow> (Inl Fetch_rejected, [request])
                | Response status text \<Rightarrow>
                    if \<not> response_ok status
                    then (Inl (Xapi_statement_failed status text), [request])
                    else (Inr (), [request])))"

section \<open>Request handlers\<close>

text \<open>
  What a handler answers: \<open>res.status(n).send(text)\<close>, \<open>res.status(n).json(value)\<close>
  (\<open>res.json\<close> answers with status 200) or \<open>res.redirect(url)\<close>.
\<close>

datatype response = Send nat jsstring | Json nat json | Redirect jsstring

subsection \<open>LTI launch (routes/lti)\<close>

text \<open>
  The learner and the course of a launch: \<open>user_id\<close>, else
  \<open>lis_person_sourcedid\<close>, else \<open>anonymous\<close>; \<open>custom_course_id\<close>, else the
  course of \<open>SELECT id FROM courses WHERE active = true LIMIT 1\<close>, which has no order:
  the first active course here.
\<close>

definition lti_userId :: "jsobject \<Rightarrow> jsstring" where
  "lti_userId launchData =
     or_else (obj_get launchData (str ''user_id''))
       (or_else (obj_get launchData (str ''lis_person_sourcedid'')) (str ''anonymous''))"

definition lti_courseId :: "store \<Rightarrow> jsobject \<Rightarrow> jsstring option" where
  "lti_courseId db launchData =
     (if truthy (obj_get launchData (str ''custom_course_id''))
      then obj_get launchData (str ''custom_course_id'')
      else map_option course_id (find course_active (courses db)))"

text \<open>The row of \<open>INSERT INTO launches\<close>.\<close>

definition lti_launch_row :: "jsstring \<Rightarrow> Consumer \<Rightarrow> jsstring \<Rightarrow> jsobject \<Rightarrow> Launch" where
  "lti_launch_row launchId consumer courseId launchData =
     \<lparr>launch_id = launchId, launch_consumer_id = consumer_id consumer,
      launch_course_id = courseId, launch_user_id = lti_userId launchData,
      launch_context_id = obj_get launchData (str ''context_id''),
      launch_resource_link_id = obj_get launchData (str ''resource_link_id''),
      lis_outcome_service_url = obj_get launchData (str ''lis_outcome_service_url''),
      lis_result_sourcedid = obj_get launchData (str ''lis_result_sourcedid''),
      launch_data = json_of_object launchData\<rparr>"

definition playerUrl :: "environment \<Rightarrow> jsstring \<Rightarrow> jsstring \<Rightarrow> jsstring" where
  "playerUrl env attemptId courseId =
     env_baseUrl env @ str ''/static/player.html?attemptId='' @ attemptId @
     str ''&courseId='' @ courseId"

text \<open>
  \<open>POST /lti/launch\<close>. \<open>launchId\<close> and \<open>attemptId\<close> are the values of the two
  calls of \<open>uuidv4()\<close>, \<open>now\<close> the time of the store. The handler answers and leaves
  the store as it is then; an exception (of \<open>validateLtiLaunch\<close>, or of an
  \<open>INSERT\<close>) is answered with status 500 by the \<open>catch\<close> block, and a row inserted
  before it stays.
\<close>

definition lti_launch ::
  "environment \<Rightarrow> nat \<Rightarrow> jsstring \<Rightarrow> jsstring \<Rightarrow> store \<Rightarrow> jsobject \<Rightarrow> response \<times> store" where
  "lti_launch env now launchId attemptId db launchData =
     (if \<not> truthy (obj_get launchData (str ''oauth_consumer_key''))
      then (Send 400 (str ''Missing oauth_consumer_key''), db)
      else
        (case find
                (\<lambda>c. Some (lti_consumer_key c) = obj_get launchData (str ''oauth_consumer_key'') \<and>
                     consumer_active c)
                (consumers db) of
           None \<Rightarrow> (Send 401 (str ''Unknown consumer''), db)
         | Some consumer \<Rightarrow>
             (case validateLtiLaunch (env_parse env) launchData (lti_consumer_secret consumer)
                     (env_baseUrl env @ str ''/lti/launch'') of
                Inl e \<Rightarrow> (Send 500 (str ''Launch failed''), db)
              | Inr isValid \<Rightarrow>
                  if \<not> isValid then (Send 401 (str ''Invalid OAuth signature''), db)
                  else
                    (case lti_courseId db launchData of
                       None \<Rightarrow> (Send 404 (str ''No courses available''), db)
                     | Some courseId \<Rightarrow>
                         (case insert_launch db
                                 (lti_launch_row launchId consumer courseId launchData) of
                            None \<Rightarrow> (Send 500 (str ''Launch failed''), db)
                          | Some db1 \<Rightarrow>
                              (case latest (open_attempts db1 (lti_userId launchData) courseId) of
                                 Some existing \<Rightarrow>
                                   (Redirect (playerUrl env (attempt_id existing) courseId), db1)
                               | None \<Rightarrow>
                                   (case insert_attempt db1 now attemptId launchId of
                                      None \<Rightarrow> (Send 500 (str ''Launch failed''), db1)
                                    | Some db2 \<Rightarrow>
                                        (Redirect (playerUrl env attemptId courseId), db2))))))))"

text \<open>
  The store keeps its keys: launches and attempts have distinct identifiers, and every
  attempt belongs to a launch of the store. No learner has two unfinished attempts on a
  course: it is enough to look at the learners and courses of the launches.
\<close>

definition store_ok :: "store \<Rightarrow> bool" where
  "store_ok db =
     (distinct (map launch_id (launches db)) \<and> distinct (map attempt_id (attempts db)) \<and>
      list_all (\<lambda>a. attempt_launch_id a \<in> set (map launch_id (launches db))) (attempts db))"

definition at_most_one_open :: "store \<Rightarrow> bool" where
  "at_most_one_open db =
     list_all (\<lambda>l. length (open_attempts db (launch_user_id l) (launch_course_id l)) \<le> 1)
       (launches db)"

subsection \<open>SCORM runtime (routes/scorm-api)\<close>

text \<open>\<open>GET /attempt/:attemptId\<close>: the four columns of the row, or status 404.\<close>

definition get_attempt :: "store \<Rightarrow> jsstring \<Rightarrow> response" where
  "get_attempt db attemptId =
     (case find (\<lambda>a. attempt_id a = attemptId) (attempts db) of
        None \<Rightarrow> Json 404 (JObj [(str ''error'', JStr (str ''Attempt not found''))])
      | Some a \<Rightarrow>
          Json 200 (JObj
            [(str ''id'', JStr (attempt_id a)),
             (str ''cmi_data'', cmi_data a),
             (str ''completion_status'', JStr (completion_status a)),
             (str ''score'', (case attempt_score a of None \<Rightarrow> JNull | Some n \<Rightarrow> JNum n))]))"

text \<open>The values that the commit handler derives from the body of the request.\<close>

definition commit_normalizedScore :: "environment \<Rightarrow> jsobject \<Rightarrow> jsnum option" where
  "commit_normalizedScore env cmiData =
     (let scoreRaw = obj_get cmiData (str ''cmi.core.score.raw'');
          scoreMax = or_else (obj_get cmiData (str ''cmi.core.score.max'')) (str ''100'')
      in case scoreRaw of
           None \<Rightarrow> None
         | Some r \<Rightarrow>
             if scoreMax \<noteq> []
             then Some (env_divide env (env_parseFloat env r) (env_parseFloat env scoreMax))
             else None)"

definition commit_completionStatus :: "jsobject \<Rightarrow> jsstring" where
  "commit_completionStatus cmiData =
     (let lessonStatus = obj_get cmiData (str ''cmi.core.lesson_status'')
      in if truthy lessonStatus \<and>
            lessonStatus \<in> set [Some (str ''completed''), Some (str ''passed'')]
         then str ''completed'' else str ''incomplete'')"

definition commit_successStatus :: "jsobject \<Rightarrow> jsstring option" where
  "commit_successStatus cmiData =
     (let lessonStatus = obj_get cmiData (str ''cmi.core.lesson_status'')
      in if truthy lessonStatus then
           (if lessonStatus = Some (str ''passed'') then Some (str ''passed'')
            else if lessonStatus = Some (str ''failed'') then Some (str ''failed'')
            else None)
         else None)"

text \<open>The \<open>UPDATE\<close> of the commit handler on one row.\<close>

definition commit_update :: "environment \<Rightarrow> nat \<Rightarrow> jsobject \<Rightarrow> Attempt \<Rightarrow> Attempt" where
  "commit_update env now cmiData a =
     a\<lparr>cmi_data := json_of_object cmiData,
       attempt_score :=
         (case commit_normalizedScore env cmiData of
            None \<Rightarrow> None
          | Some n \<Rightarrow> Some (env_times env n (Fin 100))),
       completion_status := commit_completionStatus cmiData,
       success_status := commit_successStatus cmiData,
       total_time := obj_get cmiData (str ''cmi.core.total_time''),
       updated_at := now\<rparr>"

text \<open>
  The rows of \<open>launches l JOIN attempts a ON a.launch_id = l.id WHERE a.id = $1\<close>.
\<close>

definition launches_of_attempt :: "store \<Rightarrow> jsstring \<Rightarrow> Launch list" where
  "launches_of_attempt db attemptId =
     concat (map (\<lambda>a. filter (\<lambda>l. launch_id l = attempt_launch_id a) (launches db))
       (filter (\<lambda>a. attempt_id a = attemptId) (attempts db)))"

text \<open>
  \<open>POST /attempt/:attemptId/commit\<close>: the answer, the store afterwards, and the
  requests handed to \<open>fetch\<close>. The errors of the two outbound calls are caught and
  logged.
\<close>

definition commit ::
  "environment \<Rightarrow> nat \<Rightarrow> store \<Rightarrow> jsstring \<Rightarrow> jsobject
     \<Rightarrow> response \<times> store \<times> http_request list" where
  "commit env now db attemptId cmiData =
     (let normalizedScore = commit_normalizedScore env cmiData;
          completionStatus = commit_completionStatus cmiData;
          successStatus = commit_successStatus cmiData;
          db1 = db\<lparr>attempts :=
                  map (\<lambda>a. if attempt_id a = attemptId then commit_update env now cmiData a else a)
                    (attempts db)\<rparr>;
          sent =
            (case launches_of_attempt db1 attemptId of
               [] \<Rightarrow> []
             | launch # others \<Rightarrow>
                 (case (lis_outcome_service_url launch, lis_result_sourcedid launch,
                        normalizedScore) of
                    (Some url, Some sourcedid, Some n) \<Rightarrow>
                      if url \<noteq> [] \<and> sourcedid \<noteq> []
                      then snd (sendGradeToLms env db1 (launch_consumer_id launch) url sourcedid n)
                      else []
                  | _ \<Rightarrow> []) @
                 (if json_field (launch_data launch) (str ''type'') = Some (JStr (str ''dispatch''))
                  then snd (sendXapiStatement env db1 (launch_consumer_id launch)
                         (launch_user_id launch) (launch_course_id launch)
                         \<lparr>data_verb =
                            (if completionStatus = str ''completed'' then Completed
                             else Progressed),
                          data_score = normalizedScore,
                          data_success = Some (successStatus = Some (str ''passed'')),
                          data_duration = None\<rparr>)
                  else []))
      in (Json 200 (JObj [(str ''success'', JBool True)]), db1, sent))"

text \<open>\<open>POST /attempt/:attemptId/finish\<close>.\<close>

definition finish :: "nat \<Rightarrow> store \<Rightarrow> jsstring \<Rightarrow> response \<times> store" where
  "finish now db attemptId =
     (Json 200 (JObj [(str ''success'', JBool True)]),
      db\<lparr>attempts :=
           map (\<lambda>a. if attempt_id a = attemptId then a\<lparr>finished_at := Some now\<rparr> else a)
             (attempts db)\<rparr>)"

section \<open>Example data\<close>

text \<open>
  The values of the specification's scenarios: the consumer \<open>key_abc\<close> with the
  secret \<open>s3cr3t\<close> at the base URL \<open>https://host\<close>, one course, and a learner
  \<open>u1\<close>. \<open>example_parseFloat\<close>, \<open>example_divide\<close>, \<open>example_times\<close> and
  \<open>example_round\<close> give the results of the double arithmetic on the operands that
  occur in the examples (the double nearest to 0.8 is
  \<open>3602879701896397 / 4503599627370496\<close>); on every other operand they answer
  \<open>NaN\<close>, which is the true result whenever an operand is \<open>NaN\<close> or a string does
  not start with a number, and they are used on no operand where it is not.
\<close>

definition example_parseFloat :: "jsstring \<Rightarrow> jsnum" where
  "example_parseFloat s =
     (if s = str ''80'' then Fin 80 else if s = str ''100'' then Fin 100 else NaN)"

definition example_divide :: "jsnum \<Rightarrow> jsnum \<Rightarrow> jsnum" where
  "example_divide a b =
     (if a = Fin 80 \<and> b = Fin 100 then Fin (3602879701896397 / 4503599627370496) else NaN)"

definition example_times :: "jsnum \<Rightarrow> jsnum \<Rightarrow> jsnum" where
  "example_times a b =
     (if a = Fin (3602879701896397 / 4503599627370496) \<and> b = Fin 100 then Fin 80 else NaN)"

definition example_round :: "jsnum \<Rightarrow> jsnum" where
  "example_round a = (if a = Fin 80 then Fin 80 else NaN)"

text \<open>An LRS and an outcome service that answer every request with status 500.\<close>

definition example_env :: environment where
  "example_env =
     \<lparr>env_parse = example_parse,
      env_fetch = (\<lambda>r. Response 500 (str ''down'')),
      env_now_message = 1700000000000,
      env_random = str ''k3j9x2aq1'',
      env_now_oauth = 1700000000123,
      env_nonce = str ''00112233445566778899aabbccddeeff'',
      env_iso_time = str ''2023-11-14T22:13:20.000Z'',
      env_baseUrl = str ''https://host'',
      env_xapi_endpoint = str ''https://lrs.example/xapi/'',
      env_xapi_key = str ''lrs_key'',
      env_xapi_secret = str ''lrs_secret'',
      env_parseFloat = example_parseFloat,
      env_divide = example_divide,
      env_times = example_times,
      env_round = example_round\<rparr>"

text \<open>Identifiers, in the form that \<open>uuidv4\<close> and the store give them.\<close>

definition id_consumer :: jsstring where
  "id_consumer = str ''11111111-1111-4111-8111-111111111111''"

definition id_course :: jsstring where
  "id_course = str ''22222222-2222-4222-8222-222222222222''"

definition id_launch :: jsstring where
  "id_launch = str ''33333333-3333-4333-8333-333333333333''"

definition id_attempt :: jsstring where
  "id_attempt = str ''44444444-4444-4444-8444-444444444444''"

definition id_new_launch :: jsstring where
  "id_new_launch = str ''55555555-5555-4555-8555-555555555555''"

definition id_new_attempt :: jsstring where
  "id_new_attempt = str ''66666666-6666-4666-8666-666666666666''"

definition id_absent :: jsstring where
  "id_absent = str ''99999999-9999-4999-8999-999999999999''"

definition example_consumer :: Consumer where
  "example_consumer =
     \<lparr>consumer_id = id_consumer, lti_consumer_key = str ''key_abc'',
      lti_consumer_secret = str ''s3cr3t'', xapi_lrs_endpoint = None, xapi_lrs_key = None,
      xapi_lrs_secret = None, consumer_active = True\<rparr>"

definition example_course :: Course where
  "example_course =
     \<lparr>course_id = id_course, course_title = str ''Safety'', course_active = True\<rparr>"

text \<open>A store with one LTI launch of \<open>u1\<close> on the course and its unfinished attempt.\<close>

definition example_store :: store where
  "example_store =
     \<lparr>consumers = [example_consumer], courses = [example_course],
      launches =
        [\<lparr>launch_id = id_launch, launch_consumer_id = id_consumer,
          launch_course_id = id_course, launch_user_id = str ''u1'',
          launch_context_id = None, launch_resource_link_id = None,
          lis_outcome_service_url = None, lis_result_sourcedid = None,
          launch_data = JObj [(str ''user_id'', JStr (str ''u1''))]\<rparr>],
      attempts =
        [\<lparr>attempt_id = id_attempt, attempt_launch_id = id_launch,
          cmi_data = JObj [], attempt_score = None,
          completion_status = str ''not attempted'', success_status = None,
          total_time = None, started_at = 1, finished_at = None, updated_at = 1\<rparr>]\<rparr>"


text \<open>
  A launch request of \<open>u1\<close> for the course, signed with the consumer's secret: the
  signature is the HMAC of the base string of the other parameters.
\<close>

definition example_base :: jsstring where
  "example_base =
     str ''POST&https%3A%2F%2Fhost%2Flti%2Flaunch&'' @
     str ''custom_course_id%3D22222222-2222-4222-8222-222222222222'' @
     str ''%26oauth_consumer_key%3Dkey_abc%26user_id%3Du1''"

definition example_signature :: jsstring where
  "example_signature = hmac_sha1_base64 (str ''s3cr3t'' @ str ''&'') example_base"

definition example_params :: jsobject where
  "example_params =
     [(str ''oauth_consumer_key'', str ''key_abc''), (str ''user_id'', str ''u1''),
      (str ''custom_course_id'', id_course)]"

definition example_launchData :: jsobject where
  "example_launchData = obj_set example_params (str ''oauth_signature'') example_signature"

section \<open>Properties of the OAuth signatures\<close>

subsection \<open>Objects\<close>

lemma obj_delete_obj_set: "obj_delete (obj_set ps k v) k = obj_delete ps k"
  by (induction ps k v rule: obj_set.induct) (simp_all add: obj_delete_def)

lemma obj_get_obj_set: "obj_get (obj_set ps k v) k = Some v"
  by (induction ps k v rule: obj_set.induct) (simp_all add: obj_get_def)

lemma paramString_obj_set:
  "paramString (obj_set ps (str ''oauth_signature'') v) = paramString ps"
  by (simp add: paramString_def obj_delete_obj_set)

lemma buildBaseString_obj_set:
  "buildBaseString parse m url (obj_set ps (str ''oauth_signature'') v) =
   buildBaseString parse m url ps"
  by (simp add: buildBaseString_def paramString_obj_set)

subsection \<open>Digests\<close>

lemma length_bytes_of32: "length (bytes_of32 w) = 4"
  by (simp add: bytes_of32_def)

lemma length_sha1: "length (sha1 m) = 20"
  by (simp add: sha1_def length_bytes_of32 split: prod.splits)

lemma length_hmac_sha1: "length (hmac_sha1 k m) = 20"
  by (simp add: hmac_sha1_def Let_def length_sha1)

lemma b64_ascii: "b64 n < 0x80"
proof -
  have "list_all (\<lambda>c. c < 0x80) base64_alphabet"
    by (simp add: base64_alphabet_def str_def)
  moreover have "n mod 64 < length base64_alphabet"
    by (simp add: base64_alphabet_def str_def)
  ultimately show ?thesis
    unfolding b64_def by (simp add: list_all_length)
qed

lemma base64_ascii: "ascii (base64 bs)"
  by (induction bs rule: base64.induct) (simp_all add: ascii_def b64_ascii)

lemma base64_Nil: "base64 bs = [] \<longleftrightarrow> bs = []"
  by (cases bs rule: base64.cases) simp_all

lemma hmac_sha1_base64_nonempty: "hmac_sha1_base64 k d \<noteq> []"
proof -
  have "hmac_sha1 (Buffer_from k) (Buffer_from d) \<noteq> []"
    using length_hmac_sha1 [of "Buffer_from k" "Buffer_from d"] by auto
  then show ?thesis by (simp add: hmac_sha1_base64_def base64_Nil)
qed

lemma hmac_sha1_base64_ascii: "ascii (hmac_sha1_base64 k d)"
  by (simp add: hmac_sha1_base64_def base64_ascii)

subsection \<open>UTF-8\<close>

lemma not_surrogate_if_ascii:
  "c < 0x80 \<Longrightarrow> \<not> is_high_surrogate c \<and> \<not> is_low_surrogate c"
  by (simp add: is_high_surrogate_def is_low_surrogate_def word_le_nat_alt word_less_nat_alt)

lemma unat_byte_of: "unat (byte_of n) = n mod 256"
  by (simp add: byte_of_def unat_of_nat)

lemma unat_ucast_byte: "unat (ucast c :: byte) = unat c mod 256" for c :: code_unit
  by (simp add: unsigned_ucast_eq take_bit_eq_mod)

lemma utf8_octets_ascii: "c < 0x80 \<Longrightarrow> utf8_octets (unat c) = [ucast c]"
  for c :: code_unit
  by (simp add: utf8_octets_def word_less_nat_alt word_unat_eq_iff unat_byte_of
      unat_ucast_byte)

lemma Buffer_from_ascii_Cons:
  "c < 0x80 \<Longrightarrow> Buffer_from (c # rest) = ucast c # Buffer_from rest"
  by (cases rest) (simp_all add: not_surrogate_if_ascii utf8_octets_ascii)

lemma byte_of_high: "0x80 \<le> n \<Longrightarrow> n < 256 \<Longrightarrow> \<not> byte_of n < 0x80"
  by (simp add: word_less_nat_alt unat_byte_of)

lemma utf8_octets_high:
  assumes "0x80 \<le> cp" and "cp < 0x110000"
  shows "\<exists>b bs. utf8_octets cp = b # bs \<and> \<not> b < 0x80"
proof -
  have one: "\<not> byte_of cp < 0x80" if "cp < 0x100"
    using assms(1) that by (intro byte_of_high) simp_all
  have two: "\<not> byte_of (0xC0 + cp div 64) < 0x80" if "cp < 0x800"
    using that by (intro byte_of_high) simp_all
  have three: "\<not> byte_of (0xE0 + cp div 4096) < 0x80" if "cp < 0x10000"
    using that by (intro byte_of_high) simp_all
  have four: "\<not> byte_of (0xF0 + cp div 262144) < 0x80"
    using assms(2) by (intro byte_of_high) simp_all
  show ?thesis
    using assms one two three four by (simp add: utf8_octets_def)
qed

lemma pair_code_point_range:
  assumes "is_high_surrogate c" and "is_low_surrogate d"
  shows "0x10000 \<le> pair_code_point c d \<and> pair_code_point c d < 0x110000"
proof -
  have "unat c \<le> 0xDBFF" "unat d \<le> 0xDFFF"
    using assms by (simp_all add: is_high_surrogate_def is_low_surrogate_def word_le_nat_alt)
  then show ?thesis by (simp add: pair_code_point_def)
qed

lemma Buffer_from_high_Cons:
  assumes "\<not> c < 0x80"
  shows "\<exists>b bs. Buffer_from (c # rest) = b # bs \<and> \<not> b < 0x80"
proof -
  have "unat c < 2 ^ LENGTH(16)" by (rule unsigned_less)
  then have c: "0x80 \<le> unat c" "unat c < 0x110000"
    using assms by (simp_all add: word_less_nat_alt)
  have single: "\<exists>b bs. utf8_octets (unat c) = b # bs \<and> \<not> b < 0x80"
    using c by (rule utf8_octets_high)
  show ?thesis
  proof (cases rest)
    case Nil
    with single show ?thesis by auto
  next
    case (Cons d rest')
    show ?thesis
    proof (cases "is_high_surrogate c \<and> is_low_surrogate d")
      case True
      then have "\<exists>b bs. utf8_octets (pair_code_point c d) = b # bs \<and> \<not> b < 0x80"
        using pair_code_point_range [of c d] by (intro utf8_octets_high) simp_all
      with True Cons show ?thesis by auto
    next
      case False
      with single Cons show ?thesis by auto
    qed
  qed
qed

lemma Buffer_from_Nil: "Buffer_from s = [] \<longleftrightarrow> s = []"
proof (cases s)
  case Nil
  then show ?thesis by simp
next
  case (Cons c rest)
  show ?thesis
  proof (cases "c < 0x80")
    case True
    with Cons show ?thesis by (simp add: Buffer_from_ascii_Cons)
  next
    case False
    with Cons Buffer_from_high_Cons [of c rest] show ?thesis by auto
  qed
qed

lemma ucast_ascii_inj:
  fixes c x :: code_unit
  assumes "c < 0x80" and "x < 0x80" and "(ucast c :: byte) = ucast x"
  shows "c = x"
proof -
  have "unat (ucast c :: byte) = unat c" "unat (ucast x :: byte) = unat x"
    using assms(1,2) by (simp_all add: unat_ucast_byte word_less_nat_alt)
  with assms(3) show ?thesis by (metis word_unat_eq_iff)
qed

lemma ucast_ascii_less: "c < 0x80 \<Longrightarrow> (ucast c :: byte) < 0x80" for c :: code_unit
  by (simp add: word_less_nat_alt unat_ucast_byte)

lemma Buffer_from_eq_ascii:
  "ascii e \<Longrightarrow> Buffer_from s = Buffer_from e \<Longrightarrow> s = e"
proof (induction e arbitrary: s)
  case Nil
  then show ?case by (simp add: Buffer_from_Nil)
next
  case (Cons x e)
  then have x: "x < 0x80" and e: "ascii e" by (simp_all add: ascii_def)
  from Cons.prems(2) x have eq: "Buffer_from s = ucast x # Buffer_from e"
    by (simp add: Buffer_from_ascii_Cons)
  then obtain c s' where s: "s = c # s'" by (cases s) auto
  show ?case
  proof (cases "c < 0x80")
    case True
    with eq s have "(ucast c :: byte) = ucast x" "Buffer_from s' = Buffer_from e"
      by (simp_all add: Buffer_from_ascii_Cons)
    with True x e Cons.IH [of s'] s show ?thesis
      by (auto dest: ucast_ascii_inj)
  next
    case False
    then obtain b bs where "Buffer_from (c # s') = b # bs" "\<not> b < 0x80"
      using Buffer_from_high_Cons by blast
    with eq s ucast_ascii_less [OF x] show ?thesis by simp
  qed
qed

subsection \<open>Signing and validating\<close>

lemma timingSafeEqual_caught:
  "(case timingSafeEqual a b of Inl e \<Rightarrow> Inr False | Inr r \<Rightarrow> Inr r) = Inr (a = b)"
  by (auto simp: timingSafeEqual_def)

lemma validate_with_signature:
  assumes "buildBaseString parse (str ''POST'') url params = Inr b"
    and "encodeURIComponent secret = Inr es"
  shows "validateLtiLaunch parse (obj_set params (str ''oauth_signature'') s) secret url =
         Inr (s = hmac_sha1_base64 (es @ str ''&'') b)"
proof -
  let ?expected = "hmac_sha1_base64 (es @ str ''&'') b"
  have eq: "Buffer_from s = Buffer_from ?expected \<longleftrightarrow> s = ?expected"
    using Buffer_from_eq_ascii [OF hmac_sha1_base64_ascii] by auto
  show ?thesis
  proof (cases "s = []")
    case True
    then show ?thesis
      using hmac_sha1_base64_nonempty [of "es @ str ''&''" b]
      by (auto simp: validateLtiLaunch_def obj_get_obj_set)
  next
    case False
    then show ?thesis
      using assms
      by (simp add: validateLtiLaunch_def obj_get_obj_set buildBaseString_obj_set
          bind_err_def timingSafeEqual_caught eq)
  qed
qed

lemma signRequest_Inr:
  assumes "signRequest parse m url params secret = Inr sig"
  obtains b es where "buildBaseString parse m url params = Inr b"
    and "encodeURIComponent secret = Inr es"
    and "sig = hmac_sha1_base64 (es @ str ''&'') b"
  using assms by (auto simp: signRequest_def bind_err_def split: sum.splits)

text \<open>
  C1. When \<open>signRequest\<close> over \<open>POST\<close> and the URL returns a signature for a
  parameter map and a consumer secret, \<open>validateLtiLaunch\<close> returns true on the map
  with that signature stored in \<open>oauth_signature\<close>, for the same secret and URL; and
  it returns false when one character of the stored signature is replaced by another.
\<close>

theorem sign_then_validate:
  assumes "signRequest parse (str ''POST'') url params secret = Inr sig"
  shows "validateLtiLaunch parse (obj_set params (str ''oauth_signature'') sig) secret url
           = Inr True \<and>
         (\<forall>i c. i < length sig \<and> c \<noteq> sig ! i \<longrightarrow>
            validateLtiLaunch parse (obj_set params (str ''oauth_signature'') (sig[i := c]))
              secret url = Inr False)"
proof -
  from assms obtain b es where b: "buildBaseString parse (str ''POST'') url params = Inr b"
    and es: "encodeURIComponent secret = Inr es"
    and sig: "sig = hmac_sha1_base64 (es @ str ''&'') b"
    by (rule signRequest_Inr)
  have mutated: "sig[i := c] \<noteq> sig" if "i < length sig" "c \<noteq> sig ! i" for i c
  proof
    assume "sig[i := c] = sig"
    then have "sig[i := c] ! i = sig ! i" by simp
    with that show False by simp
  qed
  show ?thesis
    using mutated by (simp add: validate_with_signature [OF b es] sig)
qed

lemma example_baseString:
  "buildBaseString example_parse (str ''POST'') (str ''https://host/lti/launch'')
     [(str ''oauth_consumer_key'', str ''key_abc''), (str ''user_id'', str ''u 1'')] =
   Inr (str ''POST&https%3A%2F%2Fhost%2Flti%2Flaunch&oauth_consumer_key%3Dkey_abc%26user_id%3Du%25201'')"
  by code_simp

lemma example_secret: "encodeURIComponent (str ''s3cr3t'') = Inr (str ''s3cr3t'')"
  by code_simp

theorem sign_then_validate_witness:
  "validateLtiLaunch example_parse
     (obj_set [(str ''oauth_consumer_key'', str ''key_abc''), (str ''user_id'', str ''u 1'')]
        (str ''oauth_signature'')
        (hmac_sha1_base64 (str ''s3cr3t'' @ str ''&'')
           (str ''POST&https%3A%2F%2Fhost%2Flti%2Flaunch&oauth_consumer_key%3Dkey_abc%26user_id%3Du%25201'')))
     (str ''s3cr3t'') (str ''https://host/lti/launch'') = Inr True \<and>
   validateLtiLaunch example_parse
     (obj_set [(str ''oauth_consumer_key'', str ''key_abc''), (str ''user_id'', str ''u 1'')]
        (str ''oauth_signature'')
        ((hmac_sha1_base64 (str ''s3cr3t'' @ str ''&'')
           (str ''POST&https%3A%2F%2Fhost%2Flti%2Flaunch&oauth_consumer_key%3Dkey_abc%26user_id%3Du%25201''))
         [0 := 0x100]))
     (str ''s3cr3t'') (str ''https://host/lti/launch'') = Inr False"
proof -
  let ?b = "str ''POST&https%3A%2F%2Fhost%2Flti%2Flaunch&oauth_consumer_key%3Dkey_abc%26user_id%3Du%25201''"
  let ?sig = "hmac_sha1_base64 (str ''s3cr3t'' @ str ''&'') ?b"
  have s: "signRequest example_parse (str ''POST'') (str ''https://host/lti/launch'')
             [(str ''oauth_consumer_key'', str ''key_abc''), (str ''user_id'', str ''u 1'')]
             (str ''s3cr3t'') = Inr ?sig"
    by (simp only: signRequest_def example_baseString example_secret bind_err_def sum.case)
  have len: "0 < length ?sig"
    using hmac_sha1_base64_nonempty [of "str ''s3cr3t'' @ str ''&''" ?b] by simp
  have "ascii ?sig" by (rule hmac_sha1_base64_ascii)
  with len have "?sig ! 0 < 0x80" by (simp add: ascii_def list_all_length)
  then have ne: "(0x100 :: code_unit) \<noteq> ?sig ! 0" by auto
  from sign_then_validate [OF s] len ne show ?thesis by blast
qed

subsection \<open>When the encoders throw\<close>

lemma uriUnescaped_ascii: "uriUnescaped c \<Longrightarrow> c < 0x80"
  by (auto simp: uriUnescaped_def is_alnum_def word_le_nat_alt word_less_nat_alt)

lemma hex_digit_ascii: "n < 16 \<Longrightarrow> hex_digit n < 0x80"
proof -
  assume "n < 16"
  then have "n \<in> set [0..<16]" by simp
  then show ?thesis by (auto simp: hex_digit_def upt_rec)
qed

lemma percent_octet_ascii: "ascii (percent_octet b)"
proof -
  have "unat b < 2 ^ LENGTH(8)" by (rule unsigned_less)
  then have "unat b div 16 < 16" by simp
  then show ?thesis by (simp add: percent_octet_def ascii_def hex_digit_ascii)
qed

lemma ascii_append: "ascii (xs @ ys) \<longleftrightarrow> ascii xs \<and> ascii ys"
  by (simp add: ascii_def)

lemma ascii_concat: "(\<And>x. x \<in> set xs \<Longrightarrow> ascii x) \<Longrightarrow> ascii (concat xs)"
  by (induction xs) (simp_all add: ascii_append, simp add: ascii_def)

lemma percent_encode_ascii: "ascii (percent_encode cp)"
  unfolding percent_encode_def by (rule ascii_concat) (auto simp: percent_octet_ascii)

lemma encodeURIComponent_ascii: "encodeURIComponent s = Inr r \<Longrightarrow> ascii r"
proof (induction s arbitrary: r rule: encodeURIComponent.induct)
  case 1
  then show ?case by (simp add: ascii_def)
next
  case (2 c)
  then show ?case
    by (auto simp: ascii_def uriUnescaped_ascii percent_encode_ascii [unfolded ascii_def]
        split: if_splits)
next
  case (3 c d rest)
  then show ?case
    by (auto simp: bind_err_def ascii_append percent_encode_ascii uriUnescaped_ascii
        split: if_splits sum.splits) (auto simp: ascii_def uriUnescaped_ascii)
qed

lemma high_not_low: "is_high_surrogate c \<Longrightarrow> \<not> is_low_surrogate c"
  by (simp add: is_high_surrogate_def is_low_surrogate_def word_le_nat_alt)

lemma encodeURIComponent_wellFormed:
  "isWellFormed s \<Longrightarrow> \<exists>r. encodeURIComponent s = Inr r"
proof (induction s rule: encodeURIComponent.induct)
  case 1
  then show ?case by simp
next
  case (2 c)
  then show ?case by simp
next
  case (3 c d rest)
  then show ?case
    using not_surrogate_if_ascii [OF uriUnescaped_ascii, of c] high_not_low [of c]
    by (auto simp: bind_err_def split: if_splits)
qed

lemma encodeURIComponent_throws:
  "\<not> isWellFormed s \<Longrightarrow> encodeURIComponent s = Inl URIError"
proof (induction s rule: encodeURIComponent.induct)
  case 1
  then show ?case by simp
next
  case (2 c)
  then show ?case
    using not_surrogate_if_ascii [OF uriUnescaped_ascii, of c] by auto
next
  case (3 c d rest)
  then show ?case
    using not_surrogate_if_ascii [OF uriUnescaped_ascii, of c] high_not_low [of c]
    by (auto simp: bind_err_def split: if_splits)
qed

lemma ascii_wellFormed: "ascii s \<Longrightarrow> isWellFormed s"
  by (induction s rule: isWellFormed.induct)
    (auto simp: ascii_def not_surrogate_if_ascii)

lemma rfc3986_unit_ascii: "c < 0x80 \<Longrightarrow> ascii (rfc3986_unit c)"
  by (auto simp: rfc3986_unit_def ascii_def hex_digit_def)

lemma encodeRfc3986_ascii: "encodeRfc3986 s = Inr r \<Longrightarrow> ascii r"
proof -
  assume "encodeRfc3986 s = Inr r"
  then obtain e where e: "encodeURIComponent s = Inr e" and r: "r = concat (map rfc3986_unit e)"
    by (auto simp: encodeRfc3986_def bind_err_def split: sum.splits)
  from e have "ascii e" by (rule encodeURIComponent_ascii)
  then have "\<And>x. x \<in> set (map rfc3986_unit e) \<Longrightarrow> ascii x"
    by (auto simp: ascii_def [of e] list_all_iff intro: rfc3986_unit_ascii)
  then show ?thesis unfolding r by (rule ascii_concat)
qed

lemma encodeRfc3986_wellFormed: "isWellFormed s \<Longrightarrow> \<exists>r. encodeRfc3986 s = Inr r"
  using encodeURIComponent_wellFormed [of s] by (auto simp: encodeRfc3986_def bind_err_def)

lemma encodeRfc3986_throws: "\<not> isWellFormed s \<Longrightarrow> encodeRfc3986 s = Inl URIError"
  by (simp add: encodeRfc3986_def bind_err_def encodeURIComponent_throws)

subsection \<open>Exceptions of \<open>validateLtiLaunch\<close>\<close>

lemma map_err_Inr:
  "(\<And>x. x \<in> set xs \<Longrightarrow> \<exists>y. f x = Inr y \<and> P y) \<Longrightarrow>
   \<exists>ys. map_err f xs = Inr ys \<and> list_all P ys"
proof (induction xs)
  case Nil
  then show ?case by simp
next
  case (Cons x xs)
  from Cons.prems [of x] obtain y where y: "f x = Inr y" "P y" by auto
  from Cons.IH Cons.prems obtain ys where ys: "map_err f xs = Inr ys" "list_all P ys"
    by auto
  from y ys show ?case by (simp add: bind_err_def)
qed

lemma join_ascii: "ascii sep \<Longrightarrow> list_all ascii xs \<Longrightarrow> ascii (join sep xs)"
  by (induction sep xs rule: join.induct) (simp_all add: ascii_append, simp add: ascii_def)

lemma str_ascii_eq: "ascii (str ''='')" and str_ascii_amp: "ascii (str ''&'')"
  and str_ascii_undefined: "ascii (str ''undefined'')"
  by (simp_all add: ascii_def str_def)

lemma obj_get_string_wellFormed:
  assumes "wellFormed_params obj"
  shows "isWellFormed (obj_get_string obj k)"
proof (cases "map_of obj k")
  case None
  then show ?thesis
    by (simp add: obj_get_string_def obj_get_def ascii_wellFormed str_ascii_undefined)
next
  case (Some v)
  then have "(k, v) \<in> set obj" by (rule map_of_SomeD)
  with assms have "isWellFormed v" by (auto simp: wellFormed_params_def list_all_iff)
  with Some show ?thesis by (simp add: obj_get_string_def obj_get_def)
qed

lemma paramString_wellFormed:
  assumes "wellFormed_params params"
  shows "\<exists>ps. paramString params = Inr ps \<and> ascii ps"
proof -
  let ?fp = "obj_delete params (str ''oauth_signature'')"
  let ?f = "\<lambda>key. bind_err (encodeRfc3986 key) (\<lambda>k.
              bind_err (encodeRfc3986 (obj_get_string ?fp key)) (\<lambda>v. Inr (k @ str ''='' @ v)))"
  have fp: "wellFormed_params ?fp"
    using assms by (simp add: wellFormed_params_def obj_delete_def list_all_iff)
  have "\<exists>y. ?f key = Inr y \<and> ascii y" if "key \<in> set (sort (Object_keys ?fp))" for key
  proof -
    from that fp have "isWellFormed key"
      by (auto simp: Object_keys_def wellFormed_params_def list_all_iff)
    then obtain k where k: "encodeRfc3986 key = Inr k"
      using encodeRfc3986_wellFormed by blast
    obtain v where v: "encodeRfc3986 (obj_get_string ?fp key) = Inr v"
      using encodeRfc3986_wellFormed [OF obj_get_string_wellFormed [OF fp]] by blast
    from k v show ?thesis
      by (simp add: bind_err_def ascii_append encodeRfc3986_ascii str_ascii_eq)
  qed
  then obtain pairs where "map_err ?f (sort (Object_keys ?fp)) = Inr pairs"
    and "list_all ascii pairs"
    using map_err_Inr [of "sort (Object_keys ?fp)" ?f ascii] by blast
  then show ?thesis
    by (simp add: paramString_def Let_def bind_err_def join_ascii str_ascii_amp)
qed

lemma buildBaseString_returns:
  assumes "wellFormed_params params"
    and "normalizeUrl parse url = Inr nu" and "isWellFormed nu"
  shows "\<exists>b. buildBaseString parse method url params = Inr b"
proof -
  from assms(1) obtain ps where ps: "paramString params = Inr ps" "ascii ps"
    using paramString_wellFormed by blast
  from assms(3) obtain eu where eu: "encodeRfc3986 nu = Inr eu"
    using encodeRfc3986_wellFormed by blast
  from ps(2) obtain ep where ep: "encodeRfc3986 ps = Inr ep"
    using encodeRfc3986_wellFormed [OF ascii_wellFormed] by blast
  from ps(1) assms(2) eu ep show ?thesis
    by (simp add: buildBaseString_def bind_err_def)
qed

lemma buildBaseString_throws:
  assumes "wellFormed_params params" and "parse url = None"
  shows "buildBaseString parse method url params = Inl TypeError_Invalid_URL"
proof -
  from assms(1) obtain ps where "paramString params = Inr ps"
    using paramString_wellFormed by blast
  with assms(2) show ?thesis
    by (simp add: buildBaseString_def bind_err_def normalizeUrl_def)
qed

lemma validate_falsy_signature:
  "\<not> truthy (obj_get params (str ''oauth_signature'')) \<Longrightarrow>
   validateLtiLaunch parse params secret url = Inr False"
  by (cases "obj_get params (str ''oauth_signature'')")
    (simp_all add: validateLtiLaunch_def)

lemma validate_throws:
  assumes "truthy (obj_get params (str ''oauth_signature''))"
    and "buildBaseString parse (str ''POST'') url params = Inl e"
  shows "validateLtiLaunch parse params secret url = Inl e"
  using assms
  by (cases "obj_get params (str ''oauth_signature'')")
    (simp_all add: validateLtiLaunch_def bind_err_def)

lemma validate_returns:
  assumes "buildBaseString parse (str ''POST'') url params = Inr b"
    and "isWellFormed secret"
  shows "\<exists>r. validateLtiLaunch parse params secret url = Inr r"
proof -
  from assms(2) obtain es where "encodeURIComponent secret = Inr es"
    using encodeURIComponent_wellFormed by blast
  with assms(1) show ?thesis
    by (cases "obj_get params (str ''oauth_signature'')")
      (auto simp: validateLtiLaunch_def bind_err_def Let_def split: sum.splits)
qed

text \<open>
  C2, as the source has it. \<open>validateLtiLaunch\<close> returns false when
  \<open>oauth_signature\<close> is absent or empty, whatever the other arguments are. With a
  signature present, and keys, values and secret that are well-formed strings, it
  returns a boolean when the URL parses to a well-formed normalised URL, and it throws
  the \<open>TypeError\<close> of the \<open>URL\<close> constructor, instead of returning false, when the
  URL does not parse.
\<close>

theorem validateLtiLaunch_outcomes:
  "(\<not> truthy (obj_get params (str ''oauth_signature'')) \<longrightarrow>
      validateLtiLaunch parse params secret url = Inr False) \<and>
   (wellFormed_params params \<and> isWellFormed secret \<and>
    (\<exists>nu. normalizeUrl parse url = Inr nu \<and> isWellFormed nu) \<longrightarrow>
      (\<exists>r. validateLtiLaunch parse params secret url = Inr r)) \<and>
   (wellFormed_params params \<and> truthy (obj_get params (str ''oauth_signature'')) \<and>
    parse url = None \<longrightarrow>
      validateLtiLaunch parse params secret url = Inl TypeError_Invalid_URL)"
proof (intro conjI impI)
  assume "\<not> truthy (obj_get params (str ''oauth_signature''))"
  then show "validateLtiLaunch parse params secret url = Inr False"
    by (rule validate_falsy_signature)
next
  assume a: "wellFormed_params params \<and> isWellFormed secret \<and>
    (\<exists>nu. normalizeUrl parse url = Inr nu \<and> isWellFormed nu)"
  then obtain b where "buildBaseString parse (str ''POST'') url params = Inr b"
    using buildBaseString_returns by blast
  with a show "\<exists>r. validateLtiLaunch parse params secret url = Inr r"
    using validate_returns by blast
next
  assume a: "wellFormed_params params \<and> truthy (obj_get params (str ''oauth_signature'')) \<and>
    parse url = None"
  then have "buildBaseString parse (str ''POST'') url params = Inl TypeError_Invalid_URL"
    using buildBaseString_throws by blast
  with a show "validateLtiLaunch parse params secret url = Inl TypeError_Invalid_URL"
    using validate_throws by blast
qed

lemma example_params_wellFormed:
  "wellFormed_params [(str ''oauth_signature'', str ''x''), (str ''user_id'', str ''u 1'')]"
  by code_simp

lemma example_signature_truthy:
  "truthy (obj_get [(str ''oauth_signature'', str ''x''), (str ''user_id'', str ''u 1'')]
     (str ''oauth_signature''))"
  by code_simp

lemma example_normalizeUrl:
  "normalizeUrl example_parse (str ''https://host/lti/launch'') =
     Inr (str ''https://host/lti/launch'')"
  by code_simp

theorem validateLtiLaunch_outcomes_witness:
  "validateLtiLaunch example_parse [(str ''user_id'', str ''u 1'')] (str ''s3cr3t'')
     (str ''not a url'') = Inr False \<and>
   (\<exists>r. validateLtiLaunch example_parse
      [(str ''oauth_signature'', str ''x''), (str ''user_id'', str ''u 1'')] (str ''s3cr3t'')
      (str ''https://host/lti/launch'') = Inr r) \<and>
   validateLtiLaunch example_parse
     [(str ''oauth_signature'', str ''x''), (str ''user_id'', str ''u 1'')] (str ''s3cr3t'')
     (str ''not a url'') = Inl TypeError_Invalid_URL"
proof -
  let ?p = "[(str ''oauth_signature'', str ''x''), (str ''user_id'', str ''u 1'')]"
  have absent: "\<not> truthy (obj_get [(str ''user_id'', str ''u 1'')] (str ''oauth_signature''))"
    by code_simp
  have secret: "isWellFormed (str ''s3cr3t'')" by code_simp
  have nu: "isWellFormed (str ''https://host/lti/launch'')" by code_simp
  have bad: "example_parse (str ''not a url'') = None" by code_simp
  have one: "validateLtiLaunch example_parse [(str ''user_id'', str ''u 1'')] (str ''s3cr3t'')
       (str ''not a url'') = Inr False"
    using validateLtiLaunch_outcomes
      [of "[(str ''user_id'', str ''u 1'')]" example_parse "str ''s3cr3t''" "str ''not a url''"]
      absent by blast
  have two: "\<exists>r. validateLtiLaunch example_parse ?p (str ''s3cr3t'')
       (str ''https://host/lti/launch'') = Inr r"
    using validateLtiLaunch_outcomes
      [of ?p example_parse "str ''s3cr3t''" "str ''https://host/lti/launch''"]
      example_params_wellFormed secret example_normalizeUrl nu by blast
  have three: "validateLtiLaunch example_parse ?p (str ''s3cr3t'') (str ''not a url'') =
       Inl TypeError_Invalid_URL"
    using validateLtiLaunch_outcomes [of ?p example_parse "str ''s3cr3t''" "str ''not a url''"]
      example_params_wellFormed example_signature_truthy bad by blast
  from one two three show ?thesis by blast
qed

text \<open>
  C2 as stated fails: with a signature present and a URL that does not parse, the call
  does not return false, it throws.
\<close>

theorem validateLtiLaunch_throws_counterexample:
  "validateLtiLaunch example_parse
     [(str ''oauth_signature'', str ''x''), (str ''user_id'', str ''u 1'')] (str ''s3cr3t'')
     (str ''not a url'') \<noteq> Inr False"
proof -
  have "validateLtiLaunch example_parse
     [(str ''oauth_signature'', str ''x''), (str ''user_id'', str ''u 1'')] (str ''s3cr3t'')
     (str ''not a url'') = Inl TypeError_Invalid_URL"
    by (rule validate_throws [OF example_signature_truthy])
      (rule buildBaseString_throws [OF example_params_wellFormed], code_simp)
  then show ?thesis by simp
qed

subsection \<open>Order of the parameters\<close>

lemma map_err_cong:
  "(\<And>x. x \<in> set xs \<Longrightarrow> f x = g x) \<Longrightarrow> map_err f xs = map_err g xs"
  by (induction xs) simp_all

lemma map_err_map: "map_err f (map h xs) = map_err (\<lambda>x. f (h x)) xs"
  by (induction xs) simp_all

lemma map_insort_key: "map f (insort_key f x xs) = insort (f x) (map f xs)"
  by (induction xs) simp_all

lemma map_sort_key: "map f (sort_key f xs) = sort (map f xs)"
  by (induction xs) (simp_all add: map_insort_key)

lemma distinct_keys_obj_delete:
  "distinct (map fst obj) \<Longrightarrow> distinct (map fst (obj_delete obj k))"
  by (simp add: obj_delete_def distinct_map_filter)

lemma obj_get_string_distinct:
  "distinct (map fst obj) \<Longrightarrow> p \<in> set obj \<Longrightarrow> obj_get_string obj (fst p) = snd p"
  by (cases p) (simp add: obj_get_string_def obj_get_def)

lemma paramString_raw_sorted:
  assumes "distinct (map fst params)"
  shows "paramString params = raw_sorted_paramString params"
proof -
  let ?fp = "obj_delete params (str ''oauth_signature'')"
  have d: "distinct (map fst ?fp)"
    using assms by (rule distinct_keys_obj_delete)
  have keys: "sort (Object_keys ?fp) = map fst (sort_key fst ?fp)"
    by (simp add: Object_keys_def map_sort_key)
  have "obj_get_string ?fp (fst p) = snd p" if "p \<in> set (sort_key fst ?fp)" for p
    using that d by (simp add: obj_get_string_distinct)
  then show ?thesis
    unfolding paramString_def raw_sorted_paramString_def Let_def keys map_err_map
    by (intro arg_cong2 [where f = bind_err] map_err_cong) simp_all
qed

lemma same_bindings_obj_delete:
  "set xs = set ys \<Longrightarrow> set (obj_delete xs k) = set (obj_delete ys k)"
  by (simp add: obj_delete_def)

lemma paramString_order:
  assumes "distinct (map fst xs)" and "distinct (map fst ys)" and "set xs = set ys"
  shows "paramString xs = paramString ys"
proof -
  let ?fx = "obj_delete xs (str ''oauth_signature'')"
  let ?fy = "obj_delete ys (str ''oauth_signature'')"
  have dx: "distinct (map fst ?fx)" and dy: "distinct (map fst ?fy)"
    using assms(1,2) by (simp_all add: distinct_keys_obj_delete)
  have s: "set ?fx = set ?fy"
    using assms(3) by (rule same_bindings_obj_delete)
  have "map_of ?fx = map_of ?fy"
    using dx dy s by (simp add: map_of_inject_set)
  then have get: "obj_get_string ?fx = obj_get_string ?fy"
    by (simp add: fun_eq_iff obj_get_string_def obj_get_def)
  have "set (Object_keys ?fx) = set (Object_keys ?fy)"
    using s by (simp add: Object_keys_def)
  then have keys: "sort (Object_keys ?fx) = sort (Object_keys ?fy)"
    using dx dy by (intro sorted_distinct_set_unique) (simp_all add: Object_keys_def)
  show ?thesis
    by (simp add: paramString_def Let_def keys get)
qed

text \<open>
  C3, as the source has it. \<open>buildBaseString\<close> leaves \<open>oauth_signature\<close> out and puts
  the remaining parameters in the code-unit order of their keys as they are (not of
  their percent-encoded form), each written as encoded key \<open>=\<close> encoded value, joined
  with \<open>&\<close>. For every pair of parameter maps with the same bindings in different
  insertion orders, the base string and the signature are the same.
\<close>

theorem buildBaseString_order:
  assumes "distinct (map fst xs)" and "distinct (map fst ys)" and "set xs = set ys"
  shows "paramString xs = raw_sorted_paramString xs \<and>
         buildBaseString parse method url xs = buildBaseString parse method url ys \<and>
         signRequest parse method url xs secret = signRequest parse method url ys secret"
  using paramString_raw_sorted [OF assms(1)] paramString_order [OF assms]
  by (simp add: buildBaseString_def signRequest_def)

theorem buildBaseString_order_witness:
  "paramString [(str ''b'', str ''2''), (str ''oauth_signature'', str ''x''), (str ''a'', str ''1'')]
     = raw_sorted_paramString
         [(str ''b'', str ''2''), (str ''oauth_signature'', str ''x''), (str ''a'', str ''1'')] \<and>
   buildBaseString example_parse (str ''POST'') (str ''https://host/lti/launch'')
     [(str ''b'', str ''2''), (str ''oauth_signature'', str ''x''), (str ''a'', str ''1'')] =
   buildBaseString example_parse (str ''POST'') (str ''https://host/lti/launch'')
     [(str ''a'', str ''1''), (str ''b'', str ''2''), (str ''oauth_signature'', str ''x'')] \<and>
   signRequest example_parse (str ''POST'') (str ''https://host/lti/launch'')
     [(str ''b'', str ''2''), (str ''oauth_signature'', str ''x''), (str ''a'', str ''1'')]
     (str ''s3cr3t'') =
   signRequest example_parse (str ''POST'') (str ''https://host/lti/launch'')
     [(str ''a'', str ''1''), (str ''b'', str ''2''), (str ''oauth_signature'', str ''x'')]
     (str ''s3cr3t'')"
proof -
  let ?xs = "[(str ''b'', str ''2''), (str ''oauth_signature'', str ''x''), (str ''a'', str ''1'')]"
  let ?ys = "[(str ''a'', str ''1''), (str ''b'', str ''2''), (str ''oauth_signature'', str ''x'')]"
  have dx: "distinct (map fst ?xs)" by code_simp
  have dy: "distinct (map fst ?ys)" by code_simp
  have s: "set ?xs = set ?ys" by auto
  show ?thesis
    by (rule buildBaseString_order [OF dx dy s])
qed

text \<open>
  C3 as stated fails: the keys \<open>Z\<close> and \<open>[\<close> stand in this order as they are, and in
  the opposite order once encoded (\<open>%5B\<close> before \<open>Z\<close>); the source sorts them as
  they are.
\<close>

theorem paramString_encoded_order_counterexample:
  "paramString [(str ''Z'', str ''1''), (str ''['', str ''2'')] = Inr (str ''Z=1&%5B=2'') \<and>
   spec_paramString [(str ''Z'', str ''1''), (str ''['', str ''2'')] = Inr (str ''%5B=2&Z=1'')"
  by code_simp

section \<open>Properties of the launch path\<close>

lemma truthy_hrefE:
  assumes "truthy (href r)"
  obtains h where "href r = Some h" and "h \<noteq> []" and "href_of (Some r) = h"
  using assms by (cases "href r") (simp_all add: href_of_def)

lemma find_append:
  "find P (xs @ ys) = (case find P xs of None \<Rightarrow> find P ys | Some x \<Rightarrow> Some x)"
  by (induction xs) simp_all

lemma item_loop_step:
  "item_loop resources (item # rest) =
     (if references_href resources item
      then Some (href_of (referenced_resource resources item))
      else item_loop resources rest)"
proof (cases "resourceId item")
  case None
  then show ?thesis
    by (simp add: references_href_def referenced_resource_def)
next
  case (Some rid)
  have eq: "(\<lambda>r. Some (res_identifier r) = Some rid) = (\<lambda>r. res_identifier r = rid)"
    by auto
  show ?thesis
  proof (cases "rid = []")
    case True
    with Some show ?thesis
      by (simp add: references_href_def referenced_resource_def)
  next
    case nonempty: False
    show ?thesis
    proof (cases "find (\<lambda>r. res_identifier r = rid) resources")
      case None
      with Some nonempty eq show ?thesis
        by (simp add: references_href_def referenced_resource_def)
    next
      case found: (Some r)
      show ?thesis
      proof (cases "truthy (href r)")
        case True
        then obtain h where h: "href r = Some h" "h \<noteq> []" "href_of (Some r) = h"
          by (rule truthy_hrefE)
        with Some nonempty found eq show ?thesis
          by (simp add: references_href_def referenced_resource_def has_href_def)
      next
        case False
        with Some nonempty found eq show ?thesis
          by (simp add: references_href_def referenced_resource_def has_href_def)
      qed
    qed
  qed
qed

lemma item_loop_find:
  "item_loop resources its =
     (case find (references_href resources) its of
        None \<Rightarrow> None
      | Some item \<Rightarrow> Some (href_of (referenced_resource resources item)))"
proof (induction its)
  case Nil
  show ?case by simp
next
  case (Cons item rest)
  then show ?case by (simp only: item_loop_step find.simps split: if_splits) simp
qed

lemma org_loop_find:
  "org_loop resources orgs =
     (case find (references_href resources) (concat (map items orgs)) of
        None \<Rightarrow> None
      | Some item \<Rightarrow> Some (href_of (referenced_resource resources item)))"
proof (induction orgs)
  case Nil
  show ?case by simp
next
  case (Cons org rest)
  show ?case
  proof (cases "find (references_href resources) (items org)")
    case None
    with Cons show ?thesis by (simp add: item_loop_find find_append)
  next
    case (Some item)
    then show ?thesis by (simp add: item_loop_find find_append)
  qed
qed

lemma lower_unit_s: "lower_unit c = 0x73 \<longleftrightarrow> c = 0x73 \<or> c = 0x53"
  unfolding lower_unit_def by (auto simp: word_le_nat_alt unat_word_ariths) (unat_arith?)

lemma lower_unit_c: "lower_unit c = 0x63 \<longleftrightarrow> c = 0x63 \<or> c = 0x43"
  unfolding lower_unit_def by (auto simp: word_le_nat_alt unat_word_ariths) (unat_arith?)

lemma lower_unit_o: "lower_unit c = 0x6F \<longleftrightarrow> c = 0x6F \<or> c = 0x4F"
  unfolding lower_unit_def by (auto simp: word_le_nat_alt unat_word_ariths) (unat_arith?)

lemma toLowerCase_sco: "toLowerCase t = str ''sco'' \<longleftrightarrow> equals_sco_ignoring_case t"
proof
  assume "toLowerCase t = str ''sco''"
  then obtain a b c where t: "t = [a, b, c]"
    and l: "lower_unit a = 0x73" "lower_unit b = 0x63" "lower_unit c = 0x6F"
    by (auto simp: toLowerCase_def str_def map_eq_Cons_conv)
  from l show "equals_sco_ignoring_case t"
    unfolding lower_unit_s lower_unit_c lower_unit_o t equals_sco_ignoring_case_def str_def
    by auto
next
  assume "equals_sco_ignoring_case t"
  then show "toLowerCase t = str ''sco''"
    by (auto simp: equals_sco_ignoring_case_def str_def toLowerCase_def lower_unit_def)
qed

lemma scormType_is_sco_iff: "scormType_is_sco r = is_sco r"
  by (simp add: scormType_is_sco_def is_sco_def toLowerCase_sco split: option.splits)

lemma sco_loop_find:
  "sco_loop resources =
     (case find (\<lambda>r. is_sco r \<and> has_href r) resources of
        None \<Rightarrow> None
      | Some r \<Rightarrow> Some (href_of (Some r)))"
proof (induction resources)
  case Nil
  show ?case by simp
next
  case (Cons r rest)
  show ?case
  proof (cases "truthy (href r)")
    case True
    then obtain h where "href r = Some h" "h \<noteq> []" "href_of (Some r) = h"
      by (rule truthy_hrefE)
    with Cons show ?thesis
      by (simp add: scormType_is_sco_iff has_href_def)
  next
    case False
    with Cons show ?thesis
      by (simp add: scormType_is_sco_iff has_href_def)
  qed
qed

lemma last_resort_find:
  "(case find (\<lambda>r. truthy (href r)) resources of
      None \<Rightarrow> str ''index.html''
    | Some firstWithHref \<Rightarrow> or_else (href firstWithHref) (str ''index.html'')) =
   (case find has_href resources of
      Some r \<Rightarrow> href_of (Some r)
    | None \<Rightarrow> str ''index.html'')"
proof -
  have fn: "has_href = (\<lambda>r. truthy (href r))"
    by (simp add: fun_eq_iff has_href_def)
  show ?thesis
  proof (cases "find (\<lambda>r. truthy (href r)) resources")
    case None
    then show ?thesis by (simp add: fn)
  next
    case (Some r)
    then have "truthy (href r)" by (auto simp: find_Some_iff)
    then obtain h where "href r = Some h" "h \<noteq> []" "href_of (Some r) = h"
      by (rule truthy_hrefE)
    with Some show ?thesis by (simp add: fn or_else_def)
  qed
qed

text \<open>
  C8. For every parsed manifest, \<open>findLaunchPath\<close> returns the href of the resource
  referenced by the first item, in document order across the organizations, whose
  referenced resource has an href; otherwise the href of the first resource whose
  SCORM type equals \<open>sco\<close> up to case and which has an href; otherwise the href of the
  first resource with an href; otherwise the literal \<open>index.html\<close>.
\<close>

theorem findLaunchPath_spec:
  "findLaunchPath organizations resources = spec_launchPath organizations resources"
  unfolding findLaunchPath_def spec_launchPath_def
  by (simp only: org_loop_find sco_loop_find last_resort_find split: option.splits) simp

section \<open>Properties of the dispatch package\<close>

subsection \<open>Escaping\<close>

lemma replace_all_append:
  "replace_all c r (a @ b) = replace_all c r a @ replace_all c r b"
  by (simp add: replace_all_def)

lemma replace_all_concat_map:
  "replace_all c r (concat (map f s)) = concat (map (\<lambda>x. replace_all c r (f x)) s)"
  by (induction s) (simp_all add: replace_all_append, simp add: replace_all_def)

lemma replace_all_as_map: "replace_all c r s = concat (map (\<lambda>x. if x = c then r else [x]) s)"
  by (simp add: replace_all_def)

lemma escapeXml_units: "escapeXml s = concat (map xml_unit s)"
proof -
  have "escapeXml s =
    concat (map (\<lambda>x. replace_all 0x27 (str ''&apos;'') (replace_all 0x22 (str ''&quot;'')
      (replace_all 0x3E (str ''&gt;'') (replace_all 0x3C (str ''&lt;'')
        (if x = 0x26 then str ''&amp;'' else [x]))))) s)"
    unfolding escapeXml_def Let_def
    by (subst replace_all_as_map [of "0x26"]) (simp only: replace_all_concat_map)
  also have "\<dots> = concat (map xml_unit s)"
    by (intro arg_cong [where f = concat] map_cong refl)
      (simp add: xml_unit_def replace_all_def str_def)
  finally show ?thesis .
qed

lemma escapeJs_units: "escapeJs s = concat (map js_unit s)"
proof -
  have "escapeJs s =
    concat (map (\<lambda>x. replace_all 0x0D [0x5C, 0x72] (replace_all 0x0A [0x5C, 0x6E]
      (replace_all 0x22 [0x5C, 0x22] (replace_all 0x27 [0x5C, 0x27]
        (if x = 0x5C then [0x5C, 0x5C] else [x]))))) s)"
    unfolding escapeJs_def Let_def
    by (subst replace_all_as_map [of "0x5C"]) (simp only: replace_all_concat_map)
  also have "\<dots> = concat (map js_unit s)"
    by (intro arg_cong [where f = concat] map_cong refl)
      (simp add: js_unit_def replace_all_def)
  finally show ?thesis .
qed

lemma xml_unit_no_delimiter: "0x3C \<notin> set (xml_unit c) \<and> 0x3E \<notin> set (xml_unit c)"
  by (simp add: xml_unit_def str_def)

lemma escapeXml_no_lt: "0x3C \<notin> set (escapeXml s)"
  by (simp add: escapeXml_units xml_unit_no_delimiter)

lemma escapeXml_no_gt: "0x3E \<notin> set (escapeXml s)"
  by (simp add: escapeXml_units xml_unit_no_delimiter)

lemma read_literal_escapeJs:
  "read_literal (escapeJs u @ 0x27 # rest) = Some (u, rest)"
  unfolding escapeJs_units
  by (induction u) (simp_all add: js_unit_def)

subsection \<open>Scanning\<close>

lemma scan_text_no_lt:
  "0x3C \<notin> set u \<Longrightarrow> scan (InText t x) (u @ rest) = scan (InText t (x @ u)) rest"
  by (induction u arbitrary: x) simp_all

lemma scan_tag_no_gt:
  "0x3E \<notin> set u \<Longrightarrow> scan (InTag t) (u @ rest) = scan (InTag (t @ u)) rest"
  by (induction u arbitrary: t) simp_all

lemma scan_append:
  "scan st (a @ b) =
     (case scan st a of (es, st') \<Rightarrow> (case scan st' b of (es', st'') \<Rightarrow> (es @ es', st'')))"
proof (induction st a rule: scan.induct)
  case (1 st)
  then show ?case by simp
next
  case (2 c cs)
  then show ?case by simp
next
  case (3 t c cs)
  then show ?case by simp
next
  case (4 t x c cs)
  then show ?case by (simp split: prod.splits)
qed

lemma scan_shift:
  "scan (InTag (p @ t)) s = shift p (scan (InTag t) s) \<and>
   scan (InText (p @ t) x) s = shift p (scan (InText t x) s)"
proof (induction s arbitrary: t x)
  case Nil
  then show ?case by simp
next
  case (Cons c cs)
  then show ?case by (simp split: prod.splits)
qed

lemma scan_tag_shift: "scan (InTag p) s = shift p (scan (InTag []) s)"
  using scan_shift [of p "[]" s] by simp

lemma scan_template:
  assumes a1: "scan Prolog A1 = (E1, InTag a1)"
    and a2: "scan (InTag []) A2 = ((t2, x2) # E2, InText n2 [])"
    and a3: "scan (InTag []) A3 = (E3, InText n3 [])"
    and a4: "scan (InTag []) A4 = (E4, InText n4 x4)"
    and i: "0x3E \<notin> set I" and t: "0x3C \<notin> set T"
  shows "elements (A1 @ I @ A2 @ T @ (0x3C # A3) @ T @ (0x3C # A4)) =
         E1 @ [(a1 @ I @ t2, x2)] @ E2 @ [(n2, T)] @ E3 @ [(n3, T)] @ E4 @ [(n4, x4)]"
proof -
  have s4: "scan (InText n3 []) (T @ (0x3C # A4)) = ((n3, T) # E4, InText n4 x4)"
    using t a4 by (simp add: scan_text_no_lt)
  have s3: "scan (InTag []) (A3 @ T @ (0x3C # A4)) = (E3 @ (n3, T) # E4, InText n4 x4)"
    using s4 by (simp add: scan_append [of _ A3] a3)
  have s2': "scan (InText n2 []) (T @ (0x3C # A3) @ T @ (0x3C # A4)) =
      ((n2, T) # E3 @ (n3, T) # E4, InText n4 x4)"
    using t s3 by (simp add: scan_text_no_lt)
  have "scan (InTag (a1 @ I)) A2 = (((a1 @ I) @ t2, x2) # E2, InText n2 [])"
    by (subst scan_tag_shift) (simp add: a2)
  then have s2: "scan (InTag (a1 @ I)) (A2 @ T @ (0x3C # A3) @ T @ (0x3C # A4)) =
      ((a1 @ I @ t2, x2) # E2 @ (n2, T) # E3 @ (n3, T) # E4, InText n4 x4)"
    using s2' by (simp add: scan_append [of _ A2])
  have s1: "scan (InTag a1) (I @ A2 @ T @ (0x3C # A3) @ T @ (0x3C # A4)) =
      ((a1 @ I @ t2, x2) # E2 @ (n2, T) # E3 @ (n3, T) # E4, InText n4 x4)"
    using i s2 by (simp add: scan_tag_no_gt)
  have "scan Prolog (A1 @ I @ A2 @ T @ (0x3C # A3) @ T @ (0x3C # A4)) =
      (E1 @ (a1 @ I @ t2, x2) # E2 @ (n2, T) # E3 @ (n3, T) # E4, InText n4 x4)"
    using s1 by (simp add: scan_append [of _ A1] a1)
  then show ?thesis by (simp add: elements_def)
qed

subsection \<open>The manifest\<close>

lemma digit_range: "k < 10 \<Longrightarrow> (0x30 + of_nat k :: code_unit) \<in> set (str ''0123456789'')"
proof -
  assume "k < 10"
  then have "k \<in> set [0..<10]" by simp
  then show ?thesis by (auto simp: upt_rec str_def)
qed

lemma digits_range: "set (digits n) \<subseteq> set (str ''0123456789'')"
proof (induction n rule: digits.induct)
  case (1 n)
  show ?case
  proof (cases "n < 10")
    case True
    then show ?thesis
      using digit_range [of n] by (subst digits.simps) simp
  next
    case False
    then have "set (digits (n div 10)) \<subseteq> set (str ''0123456789'')" by (rule "1.IH")
    moreover have "(0x30 + of_nat (n mod 10) :: code_unit) \<in> set (str ''0123456789'')"
      by (rule digit_range) simp
    ultimately show ?thesis
      using False by (subst digits.simps) simp
  qed
qed

lemma digits_no_delimiter: "0x3C \<notin> set (digits n) \<and> 0x3E \<notin> set (digits n)"
proof -
  have "0x3C \<notin> set (str ''0123456789'') \<and> 0x3E \<notin> set (str ''0123456789'')"
    by (simp add: str_def)
  then show ?thesis using digits_range [of n] by blast
qed

lemma identifier_no_gt: "0x3E \<notin> set (str ''dispatch_'' @ int_toString now)"
  by (simp add: int_toString_def digits_no_delimiter str_def)

lemma manifest_1_scan:
  \<open>snd (scan Prolog manifest_1) = InTag (str ''manifest identifier="'')\<close>
  by code_simp

lemma manifest_2_scan:
  "snd (scan (InTag []) manifest_2) = InText (str ''title'') []"
  "fst (scan (InTag []) manifest_2) \<noteq> []"
  by code_simp+

lemma manifest_2_rest:
  "filter (named (str ''resource'')) (tl (fst (scan (InTag []) manifest_2))) = []"
  "filter (named (str ''title'')) (tl (fst (scan (InTag []) manifest_2))) = []"
  by code_simp+

lemma manifest_1_elements:
  "filter (named (str ''resource'')) (fst (scan Prolog manifest_1)) = []"
  "filter (named (str ''title'')) (fst (scan Prolog manifest_1)) = []"
  by code_simp+

lemma manifest_3_scan:
  "manifest_3 = 0x3C # tl manifest_3"
  "snd (scan (InTag []) (tl manifest_3)) = InText (str ''title'') []"
  "filter (named (str ''resource'')) (fst (scan (InTag []) (tl manifest_3))) = []"
  "filter (named (str ''title'')) (fst (scan (InTag []) (tl manifest_3))) = []"
  by code_simp+

lemma manifest_4_scan:
  "manifest_4 = 0x3C # tl manifest_4"
  "snd (scan (InTag []) (tl manifest_4)) = InText (str ''/manifest'') []"
  "filter (named (str ''title'')) (fst (scan (InTag []) (tl manifest_4))) = []"
  by code_simp+

lemma manifest_4_resource:
  \<open>map fst (filter (named (str ''resource'')) (fst (scan (InTag []) (tl manifest_4)))) =
     [str ''resource identifier="res_1" type="webcontent" adlcp:scormtype="sco" href="launcher.html"'']\<close>
  by code_simp

lemma manifest_tag_not_named:
  \<open>\<not> named (str ''resource'') (str ''manifest identifier="'' @ r, x)\<close>
  \<open>\<not> named (str ''title'') (str ''manifest identifier="'' @ r, x)\<close>
  by (simp_all add: named_def str_def)

lemma title_named:
  "named (str ''title'') (str ''title'', x)"
  "\<not> named (str ''resource'') (str ''title'', x)"
  "\<not> named (str ''title'') (str ''/manifest'', x)"
  "\<not> named (str ''resource'') (str ''/manifest'', x)"
  by (simp_all add: named_def str_def)

lemma manifest_elements:
  \<open>start_tags (str ''resource'') (generateManifest now courseTitle) =
     [str ''resource identifier="res_1" type="webcontent" adlcp:scormtype="sco" href="launcher.html"'']\<close>
  \<open>element_texts (str ''title'') (generateManifest now courseTitle) =
     [escapeXml courseTitle, escapeXml courseTitle]\<close>
proof -
  let ?I = "str ''dispatch_'' @ int_toString now"
  let ?T = "escapeXml courseTitle"
  define m3 where "m3 = tl manifest_3"
  define m4 where "m4 = tl manifest_4"
  have c3: "manifest_3 = 0x3C # m3" and c4: "manifest_4 = 0x3C # m4"
    unfolding m3_def m4_def by (rule manifest_3_scan(1), rule manifest_4_scan(1))
  define E1 where "E1 = fst (scan Prolog manifest_1)"
  define E3 where "E3 = fst (scan (InTag []) m3)"
  define E4 where "E4 = fst (scan (InTag []) m4)"
  obtain t2 x2 E2 where e2: "fst (scan (InTag []) manifest_2) = (t2, x2) # E2"
    using manifest_2_scan(2) by (cases "fst (scan (InTag []) manifest_2)") auto
  have a1: \<open>scan Prolog manifest_1 = (E1, InTag (str ''manifest identifier="''))\<close>
    using manifest_1_scan by (simp add: E1_def prod_eq_iff)
  have a2: "scan (InTag []) manifest_2 = ((t2, x2) # E2, InText (str ''title'') [])"
    using manifest_2_scan(1) e2 by (simp add: prod_eq_iff)
  have a3: "scan (InTag []) m3 = (E3, InText (str ''title'') [])"
    using manifest_3_scan(2) by (simp add: E3_def m3_def prod_eq_iff)
  have a4: "scan (InTag []) m4 = (E4, InText (str ''/manifest'') [])"
    using manifest_4_scan(2) by (simp add: E4_def m4_def prod_eq_iff)
  have "generateManifest now courseTitle =
      manifest_1 @ ?I @ manifest_2 @ ?T @ (0x3C # m3) @ ?T @ (0x3C # m4)"
    by (simp add: generateManifest_def Let_def c3 c4)
  then have el: \<open>elements (generateManifest now courseTitle) =
      E1 @ [(str ''manifest identifier="'' @ ?I @ t2, x2)] @ E2 @ [(str ''title'', ?T)] @ E3 @
      [(str ''title'', ?T)] @ E4 @ [(str ''/manifest'', [])]\<close>
    using scan_template [OF a1 a2 a3 a4 identifier_no_gt, of ?T now] escapeXml_no_lt
    by simp
  have E2: "E2 = tl (fst (scan (InTag []) manifest_2))"
    using e2 by simp
  have r: "filter (named (str ''resource'')) E1 = []" "filter (named (str ''resource'')) E2 = []"
    "filter (named (str ''resource'')) E3 = []"
    and t: "filter (named (str ''title'')) E1 = []" "filter (named (str ''title'')) E2 = []"
    "filter (named (str ''title'')) E3 = []" "filter (named (str ''title'')) E4 = []"
    unfolding E1_def E2 E3_def E4_def m3_def m4_def
    by (simp_all only: manifest_1_elements manifest_2_rest manifest_3_scan(3,4)
        manifest_4_scan(3))
  show \<open>start_tags (str ''resource'') (generateManifest now courseTitle) =
     [str ''resource identifier="res_1" type="webcontent" adlcp:scormtype="sco" href="launcher.html"'']\<close>
    unfolding start_tags_def el
    using manifest_4_resource
    by (simp add: r manifest_tag_not_named title_named E4_def m4_def)
  show "element_texts (str ''title'') (generateManifest now courseTitle) = [?T, ?T]"
    unfolding element_texts_def el
    by (simp add: t manifest_tag_not_named title_named)
qed

subsection \<open>The launcher\<close>

lemma launcher_literal:
  "read_literal (escapeJs launchUrl @ launcher_2) = Some (launchUrl, launcher_tail)"
  by (simp add: launcher_2_def sq_def read_literal_escapeJs)

subsection \<open>The archive\<close>

lemma package_entries:
  "generateDispatchPackage now courseTitle launchUrl =
     [(str ''imsmanifest.xml'', Buffer_from (generateManifest now courseTitle)),
      (str ''launcher.html'', Buffer_from (generateLauncher launchUrl))]"
  by (simp add: generateDispatchPackage_def Let_def str_def)

text \<open>
  C9. For every course title and launch URL (and every clock value), the generated
  archive has exactly the two entries \<open>imsmanifest.xml\<close> and \<open>launcher.html\<close>,
  the UTF-8 bytes of the manifest and of the launcher page. The manifest has one
  \<open>resource\<close> element, and its \<open>href\<close> is \<open>launcher.html\<close>; its two \<open>title\<close>
  elements hold the title XML-escaped, character by character. The launcher page is the
  fixed page with, between the quotes after \<open>var launchUrl = \<close>, the launch URL with
  backslash, quotes, line feed and carriage return escaped and nothing else changed: read
  as a string literal, it is the launch URL.
\<close>

theorem generateDispatchPackage_contents:
  \<open>generateDispatchPackage now courseTitle launchUrl =
     [(str ''imsmanifest.xml'', Buffer_from (generateManifest now courseTitle)),
      (str ''launcher.html'', Buffer_from (generateLauncher launchUrl))] \<and>
   start_tags (str ''resource'') (generateManifest now courseTitle) =
     [str ''resource identifier="res_1" type="webcontent" adlcp:scormtype="sco" href="launcher.html"''] \<and>
   element_texts (str ''title'') (generateManifest now courseTitle) =
     [escapeXml courseTitle, escapeXml courseTitle] \<and>
   escapeXml courseTitle = concat (map xml_unit courseTitle) \<and>
   generateLauncher launchUrl =
     launcher_head @ str ''var launchUrl = '' @ sq @ escapeJs launchUrl @ sq @ launcher_tail \<and>
   escapeJs launchUrl = concat (map js_unit launchUrl) \<and>
   read_literal (escapeJs launchUrl @ sq @ launcher_tail) = Some (launchUrl, launcher_tail)\<close>
  using package_entries manifest_elements launcher_literal escapeXml_units escapeJs_units
  by (simp add: generateLauncher_def launcher_1_def launcher_2_def)

section \<open>Properties of the grade passback\<close>

subsection \<open>The score text\<close>


lemma clamp_NaN: "Math_max (Fin 0) (Math_min (Fin 1) NaN) = NaN"
  by simp









subsection \<open>The envelope\<close>









subsection \<open>The outcome of the call\<close>













section \<open>Properties of the commit handler\<close>

subsection \<open>What a commit sends\<close>








lemma commit_store:
  "fst (snd (commit env now db attemptId cmiData)) =
     db\<lparr>attempts :=
          map (\<lambda>a. if attempt_id a = attemptId then commit_update env now cmiData a else a)
            (attempts db)\<rparr>"
  "fst (commit env now db attemptId cmiData) = Json 200 (JObj [(str ''success'', JBool True)])"
  by (simp_all add: commit_def Let_def)








subsection \<open>What a commit stores\<close>






subsection \<open>An attempt that does not exist\<close>

text \<open>
  C6 fails on the source. For an identifier that no attempt has, the commit handler and
  the finish handler update no row and answer with status 200 and
  \<open>{success: true}\<close>; the handler of \<open>GET /attempt/:attemptId\<close> in the same router
  answers such an identifier with status 404 and \<open>{error: 'Attempt not found'}\<close>.
\<close>

theorem commit_missing_attempt:
  "find (\<lambda>a. attempt_id a = id_absent) (attempts example_store) = None \<and>
   fst (commit example_env 7 example_store id_absent
     [(str ''cmi.core.lesson_status'', str ''completed'')]) =
     Json 200 (JObj [(str ''success'', JBool True)]) \<and>
   fst (snd (commit example_env 7 example_store id_absent
     [(str ''cmi.core.lesson_status'', str ''completed'')])) = example_store \<and>
   finish 7 example_store id_absent =
     (Json 200 (JObj [(str ''success'', JBool True)]), example_store) \<and>
   get_attempt example_store id_absent =
     Json 404 (JObj [(str ''error'', JStr (str ''Attempt not found''))])"
  by (simp only: commit_store) code_simp

section \<open>Properties of the LTI launch\<close>

subsection \<open>The queries of the handler\<close>

lemma latest_None: "latest xs = None \<longleftrightarrow> xs = []"
  by (induction xs) (auto split: option.splits)

lemma latest_in: "latest xs = Some a \<Longrightarrow> a \<in> set xs"
  by (induction xs arbitrary: a) (auto split: option.splits if_splits)

lemma launch_of_in:
  assumes "launch_of db a = Some l"
  shows "l \<in> set (launches db)" and "launch_id l = attempt_launch_id a"
  using assms by (auto simp: launch_of_def find_Some_iff in_set_conv_nth)

lemma launch_of_known:
  assumes "attempt_launch_id a \<in> set (map launch_id (launches db))"
  shows "launch_of db a \<noteq> None"
  using assms by (auto simp: launch_of_def find_None_iff)

lemma launch_of_attempts [simp]: "launch_of (db\<lparr>attempts := as\<rparr>) a = launch_of db a"
  by (simp add: launch_of_def)

text \<open>A new launch changes the launch of no attempt that has one.\<close>

lemma launch_of_insert_launch:
  assumes "attempt_launch_id a \<in> set (map launch_id (launches db))"
  shows "launch_of (db\<lparr>launches := launches db @ [row]\<rparr>) a = launch_of db a"
proof -
  from assms obtain l where "launch_of db a = Some l"
    using launch_of_known [of a db] by auto
  then show ?thesis
    by (simp add: launch_of_def find_append)
qed

lemma open_attempts_insert_launch:
  assumes "store_ok db"
  shows "open_attempts (db\<lparr>launches := launches db @ [row]\<rparr>) userId courseId =
         open_attempts db userId courseId"
proof -
  have "launch_of (db\<lparr>launches := launches db @ [row]\<rparr>) a = launch_of db a"
    if "a \<in> set (attempts db)" for a
    using assms that by (intro launch_of_insert_launch) (auto simp: store_ok_def list_all_iff)
  then show ?thesis
    by (auto simp: open_attempts_def intro!: filter_cong)
qed

text \<open>A new unfinished attempt is an open attempt of the learner and course of its launch.\<close>

lemma open_attempts_insert_attempt:
  assumes "launch_of db a = Some l" and "finished_at a = None"
  shows "open_attempts (db\<lparr>attempts := attempts db @ [a]\<rparr>) userId courseId =
         open_attempts db userId courseId @
         (if launch_user_id l = userId \<and> launch_course_id l = courseId then [a] else [])"
  using assms by (simp add: open_attempts_def)

lemma at_most_one_open_iff:
  "at_most_one_open db \<longleftrightarrow>
   (\<forall>userId courseId. length (open_attempts db userId courseId) \<le> 1)"
proof
  assume one: "at_most_one_open db"
  show "\<forall>userId courseId. length (open_attempts db userId courseId) \<le> 1"
  proof (intro allI)
    fix userId courseId
    show "length (open_attempts db userId courseId) \<le> 1"
    proof (cases "open_attempts db userId courseId")
      case Nil
      then show ?thesis by simp
    next
      case (Cons a rest)
      then have "a \<in> set (open_attempts db userId courseId)" by simp
      then obtain l where l: "launch_of db a = Some l" "launch_user_id l = userId"
          "launch_course_id l = courseId"
        by (auto simp: open_attempts_def split: option.splits)
      from launch_of_in(1) [OF l(1)] one l(2,3) show ?thesis
        by (auto simp: at_most_one_open_def list_all_iff)
    qed
  qed
next
  assume "\<forall>userId courseId. length (open_attempts db userId courseId) \<le> 1"
  then show "at_most_one_open db"
    by (simp add: at_most_one_open_def list_all_iff)
qed

subsection \<open>The two inserts\<close>

lemma lti_launch_row_sel [simp]:
  "launch_id (lti_launch_row launchId consumer courseId launchData) = launchId"
  "launch_consumer_id (lti_launch_row launchId consumer courseId launchData) =
     consumer_id consumer"
  "launch_course_id (lti_launch_row launchId consumer courseId launchData) = courseId"
  "launch_user_id (lti_launch_row launchId consumer courseId launchData) =
     lti_userId launchData"
  by (simp_all add: lti_launch_row_def)

lemma insert_launch_Some:
  assumes "insert_launch db row = Some db1"
  shows "db1 = db\<lparr>launches := launches db @ [row]\<rparr>"
    and "launch_id row \<notin> set (map launch_id (launches db))"
  using assms by (auto simp: insert_launch_def split: if_splits)

lemma insert_attempt_Some:
  assumes "insert_attempt db now attemptId launchId = Some db2"
  obtains a where "db2 = db\<lparr>attempts := attempts db @ [a]\<rparr>" and "attempt_id a = attemptId"
    and "attempt_launch_id a = launchId" and "finished_at a = None"
    and "attemptId \<notin> set (map attempt_id (attempts db))"
    and "launchId \<in> set (map launch_id (launches db))"
  using assms by (auto simp: insert_attempt_def split: if_splits)

lemma store_ok_insert_launch:
  assumes "store_ok db" and "launch_id row \<notin> set (map launch_id (launches db))"
  shows "store_ok (db\<lparr>launches := launches db @ [row]\<rparr>)"
  using assms by (auto simp: store_ok_def list_all_iff)

lemma store_ok_insert_attempt:
  assumes "store_ok db" and "attempt_id a \<notin> set (map attempt_id (attempts db))"
    and "attempt_launch_id a \<in> set (map launch_id (launches db))"
  shows "store_ok (db\<lparr>attempts := attempts db @ [a]\<rparr>)"
  using assms by (auto simp: store_ok_def list_all_iff)

text \<open>The paths of the handler that end in a redirect.\<close>

lemma lti_launch_Redirect:
  assumes "lti_launch env now launchId attemptId db launchData = (Redirect url, db')"
  shows "\<exists>consumer courseId db1.
    lti_courseId db launchData = Some courseId \<and>
    insert_launch db (lti_launch_row launchId consumer courseId launchData) = Some db1 \<and>
    (case latest (open_attempts db1 (lti_userId launchData) courseId) of
       Some existing \<Rightarrow> url = playerUrl env (attempt_id existing) courseId \<and> db' = db1
     | None \<Rightarrow>
         url = playerUrl env attemptId courseId \<and>
         insert_attempt db1 now attemptId launchId = Some db')"
proof (cases "find (\<lambda>c. Some (lti_consumer_key c) =
    obj_get launchData (str ''oauth_consumer_key'') \<and> consumer_active c) (consumers db)")
  case None
  with assms show ?thesis
    by (simp add: lti_launch_def split: if_splits)
next
  case consumer: (Some consumer)
  show ?thesis
  proof (cases "lti_courseId db launchData")
    case None
    with assms consumer show ?thesis
      by (simp add: lti_launch_def split: if_splits sum.splits)
  next
    case course: (Some courseId)
    show ?thesis
    proof (cases "insert_launch db (lti_launch_row launchId consumer courseId launchData)")
      case None
      with assms consumer course show ?thesis
        by (simp add: lti_launch_def split: if_splits sum.splits)
    next
      case (Some db1)
      with assms consumer course
      have "case latest (open_attempts db1 (lti_userId launchData) courseId) of
              Some existing \<Rightarrow> url = playerUrl env (attempt_id existing) courseId \<and> db' = db1
            | None \<Rightarrow>
                url = playerUrl env attemptId courseId \<and>
                insert_attempt db1 now attemptId launchId = Some db'"
        by (simp add: lti_launch_def split: if_splits sum.splits option.splits)
      with course Some show ?thesis
        by blast
    qed
  qed
qed

subsection \<open>Attempts of a launch\<close>

text \<open>
  C4, as the source has it. On a store that keeps its keys and in which no learner has two
  unfinished attempts on a course, a launch that is answered with a redirect has always
  inserted a launch row: the \<open>INSERT INTO launches\<close> precedes the search for an
  unfinished attempt. When the learner has an unfinished attempt on the course, no attempt
  is inserted and the redirect names the latest such attempt; otherwise one unfinished
  attempt is inserted under the new launch, and the redirect names it. Afterwards the store
  keeps its keys, and still no learner has two unfinished attempts on a course.
\<close>

theorem lti_launch_attempt:
  assumes "store_ok db" and "at_most_one_open db"
    and "lti_launch env now launchId attemptId db launchData = (Redirect url, db')"
  shows "\<exists>consumer courseId.
           lti_courseId db launchData = Some courseId \<and>
           launches db' =
             launches db @ [lti_launch_row launchId consumer courseId launchData] \<and>
           (case latest (open_attempts db (lti_userId launchData) courseId) of
              Some existing \<Rightarrow>
                attempts db' = attempts db \<and>
                url = playerUrl env (attempt_id existing) courseId
            | None \<Rightarrow>
                (\<exists>a. attempts db' = attempts db @ [a] \<and> attempt_id a = attemptId \<and>
                     attempt_launch_id a = launchId \<and> finished_at a = None) \<and>
                url = playerUrl env attemptId courseId) \<and>
           store_ok db' \<and> at_most_one_open db'"
proof -
  let ?user = "lti_userId launchData"
  from assms(3) obtain consumer courseId db1 where
    course: "lti_courseId db launchData = Some courseId" and
    ins: "insert_launch db (lti_launch_row launchId consumer courseId launchData) = Some db1" and
    rest: "case latest (open_attempts db1 ?user courseId) of
             Some existing \<Rightarrow> url = playerUrl env (attempt_id existing) courseId \<and> db' = db1
           | None \<Rightarrow>
               url = playerUrl env attemptId courseId \<and>
               insert_attempt db1 now attemptId launchId = Some db'"
    using lti_launch_Redirect [OF assms(3)] by blast
  let ?row = "lti_launch_row launchId consumer courseId launchData"
  from insert_launch_Some [OF ins]
  have db1: "db1 = db\<lparr>launches := launches db @ [?row]\<rparr>"
    and new: "launchId \<notin> set (map launch_id (launches db))"
    by simp_all
  have opened: "open_attempts db1 u c = open_attempts db u c" for u c
    unfolding db1 using assms(1) by (rule open_attempts_insert_launch)
  have ok1: "store_ok db1"
    unfolding db1 using assms(1) new by (intro store_ok_insert_launch) simp_all
  have one1: "at_most_one_open db1"
    using assms(2) by (simp add: at_most_one_open_iff opened)
  show ?thesis
  proof (cases "latest (open_attempts db ?user courseId)")
    case (Some existing)
    with rest have "url = playerUrl env (attempt_id existing) courseId" and "db' = db1"
      by (simp_all add: opened)
    with Some course ok1 one1 show ?thesis
      by (auto simp: db1)
  next
    case None
    with rest have url: "url = playerUrl env attemptId courseId"
      and att: "insert_attempt db1 now attemptId launchId = Some db'"
      by (simp_all add: opened)
    from None have none: "open_attempts db1 ?user courseId = []"
      by (simp add: latest_None opened)
    from att obtain a where a: "db' = db1\<lparr>attempts := attempts db1 @ [a]\<rparr>"
        "attempt_id a = attemptId" "attempt_launch_id a = launchId" "finished_at a = None"
        "attemptId \<notin> set (map attempt_id (attempts db1))"
        "launchId \<in> set (map launch_id (launches db1))"
      by (rule insert_attempt_Some)
    from new have "find (\<lambda>l. launch_id l = launchId) (launches db) = None"
      by (auto simp: find_None_iff)
    then have launch: "launch_of db1 a = Some ?row"
      by (simp add: launch_of_def db1 a(3) find_append)
    have "length (open_attempts db' u c) \<le> 1" for u c
    proof (cases "u = ?user \<and> c = courseId")
      case True
      then show ?thesis
        unfolding a(1) by (simp add: open_attempts_insert_attempt [OF launch a(4)] none)
    next
      case False
      with one1 show ?thesis
        unfolding a(1)
        by (auto simp: open_attempts_insert_attempt [OF launch a(4)] at_most_one_open_iff)
    qed
    then have one': "at_most_one_open db'"
      by (simp add: at_most_one_open_iff)
    have ok': "store_ok db'"
      unfolding a(1) using ok1 a(2,3,5,6) by (intro store_ok_insert_attempt) simp_all
    from a(1) have "launches db' = launches db @ [?row]" and "attempts db' = attempts db @ [a]"
      by (simp_all add: db1)
    with None course url a(2,3,4) ok' one' show ?thesis
      by auto
  qed
qed

text \<open>A signed launch of a learner who has an unfinished attempt on the course.\<close>

lemma obj_get_obj_set_if:
  "obj_get (obj_set ps k v) k' = (if k' = k then Some v else obj_get ps k')"
  by (induction ps k v rule: obj_set.induct) (auto simp: obj_get_def)

lemma example_launchData_get:
  "obj_get example_launchData (str ''oauth_consumer_key'') = Some (str ''key_abc'')"
  "obj_get example_launchData (str ''user_id'') = Some (str ''u1'')"
  "obj_get example_launchData (str ''custom_course_id'') = Some id_course"
proof -
  have ne: "str ''oauth_consumer_key'' \<noteq> str ''oauth_signature''"
    "str ''user_id'' \<noteq> str ''oauth_signature''"
    "str ''custom_course_id'' \<noteq> str ''oauth_signature''"
    by code_simp+
  have get: "obj_get example_params (str ''oauth_consumer_key'') = Some (str ''key_abc'')"
    "obj_get example_params (str ''user_id'') = Some (str ''u1'')"
    "obj_get example_params (str ''custom_course_id'') = Some id_course"
    by code_simp+
  show "obj_get example_launchData (str ''oauth_consumer_key'') = Some (str ''key_abc'')"
    "obj_get example_launchData (str ''user_id'') = Some (str ''u1'')"
    "obj_get example_launchData (str ''custom_course_id'') = Some id_course"
    by (simp_all only: example_launchData_def obj_get_obj_set_if ne get if_False)
qed

lemma example_launch_user: "lti_userId example_launchData = str ''u1''"
proof -
  have "or_else (Some (str ''u1'')) other = str ''u1''" for other
    by (simp add: or_else_def str_def)
  then show ?thesis
    by (simp add: lti_userId_def example_launchData_get)
qed

lemma example_launch_course: "lti_courseId example_store example_launchData = Some id_course"
proof -
  have "truthy (Some id_course)"
    by (simp add: id_course_def str_def)
  then show ?thesis
    by (simp add: lti_courseId_def example_launchData_get)
qed

lemma example_launch_baseString:
  "buildBaseString example_parse (str ''POST'') (str ''https://host/lti/launch'')
     example_params = Inr example_base"
  by code_simp

lemma example_launch_valid:
  "validateLtiLaunch (env_parse example_env) example_launchData
     (lti_consumer_secret example_consumer) (env_baseUrl example_env @ str ''/lti/launch'') =
   Inr True"
proof -
  have "env_parse example_env = example_parse"
    by (simp add: example_env_def)
  moreover have "lti_consumer_secret example_consumer = str ''s3cr3t''"
    by (simp add: example_consumer_def)
  moreover have "env_baseUrl example_env @ str ''/lti/launch'' = str ''https://host/lti/launch''"
    by code_simp
  ultimately show ?thesis
    by (simp only: example_launchData_def
        validate_with_signature [OF example_launch_baseString example_secret])
      (simp add: example_signature_def)
qed

lemma example_store_rows:
  "find (\<lambda>c. lti_consumer_key c = str ''key_abc'' \<and> consumer_active c)
     (consumers example_store) = Some example_consumer"
  "id_new_launch \<notin> set (map launch_id (launches example_store))"
  "consumer_id example_consumer \<in> set (map consumer_id (consumers example_store))"
  "id_course \<in> set (map course_id (courses example_store))"
  "latest (open_attempts example_store (str ''u1'') id_course) =
     Some (hd (attempts example_store))"
  "attempt_id (hd (attempts example_store)) = id_attempt"
  by code_simp+

lemma example_store_ok: "store_ok example_store" "at_most_one_open example_store"
  by code_simp+

lemma example_launch:
  "lti_launch example_env 9 id_new_launch id_new_attempt example_store example_launchData =
     (Redirect (playerUrl example_env id_attempt id_course),
      example_store\<lparr>launches := launches example_store @
        [lti_launch_row id_new_launch example_consumer id_course example_launchData]\<rparr>)"
proof -
  note user = example_launch_user and course = example_launch_course
  have key: "str ''key_abc'' \<noteq> []"
    by (simp add: str_def)
  let ?row = "lti_launch_row id_new_launch example_consumer id_course example_launchData"
  have ins: "insert_launch example_store ?row =
      Some (example_store\<lparr>launches := launches example_store @ [?row]\<rparr>)"
    using example_store_rows(2,3,4) by (simp add: insert_launch_def)
  have existing: "latest (open_attempts
      (example_store\<lparr>launches := launches example_store @ [?row]\<rparr>) (str ''u1'') id_course) =
      Some (hd (attempts example_store))"
    by (simp only: open_attempts_insert_launch [OF example_store_ok(1)] example_store_rows(5))
  show ?thesis
    by (simp add: lti_launch_def example_launchData_get key example_store_rows(1,6)
        example_launch_valid course ins user existing)
qed

theorem lti_launch_attempt_witness:
  "store_ok example_store \<and> at_most_one_open example_store \<and>
   lti_launch example_env 9 id_new_launch id_new_attempt example_store example_launchData =
     (Redirect (playerUrl example_env id_attempt id_course),
      example_store\<lparr>launches := launches example_store @
        [lti_launch_row id_new_launch example_consumer id_course example_launchData]\<rparr>) \<and>
   store_ok (example_store\<lparr>launches := launches example_store @
     [lti_launch_row id_new_launch example_consumer id_course example_launchData]\<rparr>) \<and>
   at_most_one_open (example_store\<lparr>launches := launches example_store @
     [lti_launch_row id_new_launch example_consumer id_course example_launchData]\<rparr>)"
  using lti_launch_attempt [OF example_store_ok example_launch] example_store_ok example_launch
  by blast

text \<open>
  C4 as stated fails: the learner has an unfinished attempt on the course, the launch
  reuses it, and a launch row is inserted all the same.
\<close>

theorem lti_launch_row_counterexample:
  "latest (open_attempts example_store (lti_userId example_launchData) id_course) =
     Some (hd (attempts example_store)) \<and>
   attempts (snd (lti_launch example_env 9 id_new_launch id_new_attempt example_store
     example_launchData)) = attempts example_store \<and>
   length (launches (snd (lti_launch example_env 9 id_new_launch id_new_attempt example_store
     example_launchData))) = length (launches example_store) + 1"
  by (simp add: example_launch example_launch_user example_store_rows(5))

end
